theory Spec2Isabelle
  imports Main "HOL-Library.AList"
begin

section \<open>JavaScript values\<close>

text \<open>
  Values that reach the modelled code: parsed JSON plus \<open>undefined\<close>.  Numbers are
  restricted to integers.  An object is the association list of its own properties.
\<close>

datatype jsval =
    JUndefined
  | JNull
  | JBool bool
  | JNum int
  | JStr string
  | JArr "jsval list"
  | JObj "(string \<times> jsval) list"

datatype js_error = TypeError | SyntaxError | NetworkError | Unauthorized

text \<open>ToBoolean, as used by \<open>if (x)\<close>, \<open>x || y\<close> and \<open>x && y\<close>.\<close>

fun truthy :: "jsval \<Rightarrow> bool" where
  "truthy JUndefined = False"
| "truthy JNull = False"
| "truthy (JBool b) = b"
| "truthy (JNum n) = (n \<noteq> 0)"
| "truthy (JStr s) = (s \<noteq> [])"
| "truthy (JArr xs) = True"
| "truthy (JObj kvs) = True"

definition js_or :: "jsval \<Rightarrow> jsval \<Rightarrow> jsval" where
  "js_or a b = (if truthy a then a else b)"

text \<open>
  Strict equality \<open>===\<close> (and the SameValueZero of \<open>Set.prototype.has\<close>, which differs
  only on NaN) between two values that come from different parses: an id of a newly
  parsed payload against the id of a selected entry or of \<open>currentUser\<close>, or an id against
  the text of a \<open>data-id\<close>.  These are the comparisons the code makes.  An array or an
  object is equal only to itself, so across parses two of them are never equal.  The
  function says nothing about one object compared with itself; the properties of the
  selection are stated for primitive ids, on which \<open>===\<close> is equality.
\<close>

fun strict_eq :: "jsval \<Rightarrow> jsval \<Rightarrow> bool" where
  "strict_eq JUndefined JUndefined = True"
| "strict_eq JNull JNull = True"
| "strict_eq (JBool a) (JBool b) = (a = b)"
| "strict_eq (JNum a) (JNum b) = (a = b)"
| "strict_eq (JStr a) (JStr b) = (a = b)"
| "strict_eq _ _ = False"

text \<open>
  Property read \<open>v.name\<close> for the property names the code uses: a TypeError on
  \<open>null\<close> and \<open>undefined\<close>, \<open>undefined\<close> for a missing property.
\<close>

fun get_prop :: "jsval \<Rightarrow> string \<Rightarrow> js_error + jsval" where
  "get_prop JUndefined name = Inl TypeError"
| "get_prop JNull name = Inl TypeError"
| "get_prop (JObj kvs) name = Inr (case map_of kvs name of Some v \<Rightarrow> v | None \<Rightarrow> JUndefined)"
| "get_prop _ name = Inr JUndefined"

text \<open>\<open>Array.prototype.map\<close> and \<open>filter\<close> with a callback that may throw.\<close>

fun array_map :: "('a \<Rightarrow> js_error + 'b) \<Rightarrow> 'a list \<Rightarrow> js_error + 'b list" where
  "array_map f [] = Inr []"
| "array_map f (x # xs) =
     (case f x of
        Inl e \<Rightarrow> Inl e
      | Inr y \<Rightarrow> (case array_map f xs of Inl e \<Rightarrow> Inl e | Inr ys \<Rightarrow> Inr (y # ys)))"

fun array_filter :: "('a \<Rightarrow> js_error + bool) \<Rightarrow> 'a list \<Rightarrow> js_error + 'a list" where
  "array_filter p [] = Inr []"
| "array_filter p (x # xs) =
     (case p x of
        Inl e \<Rightarrow> Inl e
      | Inr b \<Rightarrow>
          (case array_filter p xs of
             Inl e \<Rightarrow> Inl e
           | Inr ys \<Rightarrow> Inr (if b then x # ys else ys)))"

text \<open>
  The receiver of \<open>(data || []).map(...)\<close> and \<open>.filter(...)\<close>: a falsy value gives the
  empty array; a truthy value that is not an array has no such method, and the call
  raises a TypeError.
\<close>

definition or_empty_array :: "jsval \<Rightarrow> js_error + jsval list" where
  "or_empty_array data =
     (if \<not> truthy data then Inr []
      else (case data of JArr xs \<Rightarrow> Inr xs | _ \<Rightarrow> Inl TypeError))"

text \<open>\<open>String.prototype.trim\<close> on strings of 8-bit code units.\<close>

definition is_space :: "char \<Rightarrow> bool" where
  "is_space c \<longleftrightarrow> c \<in> set [CHR 0x09, CHR 0x0A, CHR 0x0B, CHR 0x0C, CHR 0x0D, CHR 0x20, CHR 0xA0]"

definition trim :: "string \<Rightarrow> string" where
  "trim s = rev (dropWhile is_space (rev (dropWhile is_space s)))"

section \<open>HTML escaping\<close>

definition htmlEscapeMap :: "(char \<times> string) list" where
  "htmlEscapeMap =
     [(CHR ''&'', ''&amp;''),
      (CHR ''<'', ''&lt;''),
      (CHR ''>'', ''&gt;''),
      (CHR 0x22, ''&quot;''),
      (CHR 0x27, ''&#39;'')]"

text \<open>The character class \<open>[&<>"']\<close> of the regular expression.\<close>

definition html_special :: "char \<Rightarrow> bool" where
  "html_special c \<longleftrightarrow>
     c = CHR ''&'' \<or> c = CHR ''<'' \<or> c = CHR ''>'' \<or> c = CHR 0x22 \<or> c = CHR 0x27"

text \<open>
  \<open>s.replace(/[...]/g, f)\<close>: every character of the class is replaced by what the
  callback returns for it.
\<close>

fun replace_each :: "(char \<Rightarrow> bool) \<Rightarrow> (char \<Rightarrow> string) \<Rightarrow> string \<Rightarrow> string" where
  "replace_each p f [] = []"
| "replace_each p f (c # cs) = (if p c then f c else [c]) @ replace_each p f cs"

text \<open>The callback \<open>(char) => htmlEscapeMap[char]\<close>; a missing key would print as \<open>undefined\<close>.\<close>

definition escape_lookup :: "char \<Rightarrow> string" where
  "escape_lookup c = (case map_of htmlEscapeMap c of Some e \<Rightarrow> e | None \<Rightarrow> ''undefined'')"

definition escapeHtml :: "jsval \<Rightarrow> jsval" where
  "escapeHtml v =
     (case v of
        JStr s \<Rightarrow> JStr (replace_each html_special escape_lookup s)
      | JUndefined \<Rightarrow> JStr []
      | JNull \<Rightarrow> JStr []
      | _ \<Rightarrow> v)"

text \<open>
  The entity of a character as the specification words it, for comparison with
  \<^const>\<open>escapeHtml\<close>.
\<close>

definition html_entity :: "char \<Rightarrow> string" where
  "html_entity c =
     (if c = CHR ''&'' then ''&amp;''
      else if c = CHR ''<'' then ''&lt;''
      else if c = CHR ''>'' then ''&gt;''
      else if c = CHR 0x22 then ''&quot;''
      else if c = CHR 0x27 then ''&#39;''
      else [c])"

section \<open>Session store\<close>

text \<open>\<open>localStorage\<close>: string keys to string values.\<close>

type_synonym storage = "(string \<times> string) list"

definition getItem :: "storage \<Rightarrow> string \<Rightarrow> string option" where
  "getItem st k = map_of st k"

definition setItem :: "string \<Rightarrow> string \<Rightarrow> storage \<Rightarrow> storage" where
  "setItem k v st = AList.update k v st"

definition removeItem :: "string \<Rightarrow> storage \<Rightarrow> storage" where
  "removeItem k st = AList.delete k st"

text \<open>\<open>x || null\<close> on the result of \<open>getItem\<close>: the empty string is falsy.\<close>

definition or_null :: "string option \<Rightarrow> string option" where
  "or_null r = (case r of None \<Rightarrow> None | Some v \<Rightarrow> if v = [] then None else Some v)"

definition getToken :: "storage \<Rightarrow> string option" where
  "getToken st = or_null (getItem st ''photoshare_token'')"

text \<open>
  The setters take a string or \<open>null\<close> (\<open>None\<close>); \<open>if (token)\<close> is false for \<open>null\<close>
  and for the empty string.
\<close>

definition store_or_remove :: "string \<Rightarrow> string option \<Rightarrow> storage \<Rightarrow> storage" where
  "store_or_remove k v st =
     (case v of
        None \<Rightarrow> removeItem k st
      | Some s \<Rightarrow> if s \<noteq> [] then setItem k s st else removeItem k st)"

definition setToken :: "string option \<Rightarrow> storage \<Rightarrow> storage" where
  "setToken token st = store_or_remove ''photoshare_token'' token st"

definition getUserRole :: "storage \<Rightarrow> string option" where
  "getUserRole st = or_null (getItem st ''photoshare_role'')"

definition setUserRole :: "string option \<Rightarrow> storage \<Rightarrow> storage" where
  "setUserRole role st = store_or_remove ''photoshare_role'' role st"

definition setUserName :: "string option \<Rightarrow> storage \<Rightarrow> storage" where
  "setUserName name st = store_or_remove ''photoshare_name'' name st"

definition getUserName :: "storage \<Rightarrow> string option" where
  "getUserName st = or_null (getItem st ''photoshare_name'')"

text \<open>
  The global state the session code reads and writes: \<open>localStorage\<close>, the module
  variable \<open>currentUser\<close> and \<open>window.location.href\<close>.
\<close>

record session =
  localStorage :: storage
  currentUser :: jsval
  location_href :: string

definition logout :: "session \<Rightarrow> session" where
  "logout g =
     (let st1 = setToken None (localStorage g);
          st2 = setUserRole None st1;
          st3 = setUserName None st2
      in g\<lparr>localStorage := st3, currentUser := JNull, location_href := ''login.html''\<rparr>)"

text \<open>
  What the login form and \<open>hydrateSession\<close> persist on success: token, role, name and
  the user id, the last one with a direct \<open>localStorage.setItem\<close>.
\<close>

definition session_keys :: "string list" where
  "session_keys =
     [''photoshare_token'', ''photoshare_role'', ''photoshare_name'', ''photoshare_user_id'']"

section \<open>Authenticated fetch wrapper\<close>

text \<open>
  The platform parts the code is configured with: the constant \<open>API_BASE\<close> and the
  built-ins \<open>JSON.stringify\<close>, \<open>encodeURIComponent\<close> and the printing of a number.
\<close>

record platform =
  API_BASE :: string
  JSON_stringify :: "jsval \<Rightarrow> string"
  encodeURIComponent :: "string \<Rightarrow> string"
  Number_toString :: "int \<Rightarrow> string"

text \<open>
  A \<open>Headers\<close> object: lower-cased names, one combined value per name.  \<open>append\<close>
  and \<open>set\<close> strip the HTTP whitespace around the value and throw a TypeError when
  the name is not a token or the stripped value contains NUL, LF or CR.
\<close>

type_synonym headers = "(string \<times> string) list"

definition lower_char :: "char \<Rightarrow> char" where
  "lower_char c =
     (let n = (of_char c :: nat) in if 65 \<le> n \<and> n \<le> 90 then char_of (n + 32) else c)"

definition lower :: "string \<Rightarrow> string" where
  "lower s = map lower_char s"

definition http_whitespace :: "char \<Rightarrow> bool" where
  "http_whitespace c \<longleftrightarrow> c \<in> set [CHR 0x09, CHR 0x0A, CHR 0x0D, CHR 0x20]"

definition normalize_value :: "string \<Rightarrow> string" where
  "normalize_value v = rev (dropWhile http_whitespace (rev (dropWhile http_whitespace v)))"

definition header_value :: "string \<Rightarrow> bool" where
  "header_value v \<longleftrightarrow> list_all (\<lambda>c. c \<notin> set [CHR 0x00, CHR 0x0A, CHR 0x0D]) v"

definition token_char :: "char \<Rightarrow> bool" where
  "token_char c \<longleftrightarrow>
     (let n = (of_char c :: nat)
      in (48 \<le> n \<and> n \<le> 57) \<or> (65 \<le> n \<and> n \<le> 90) \<or> (97 \<le> n \<and> n \<le> 122)
         \<or> c \<in> set [CHR 0x21, CHR 0x23, CHR 0x24, CHR 0x25, CHR 0x26, CHR 0x27, CHR 0x2A,
                      CHR 0x2B, CHR 0x2D, CHR 0x2E, CHR 0x5E, CHR 0x5F, CHR 0x60, CHR 0x7C,
                      CHR 0x7E])"

definition header_name :: "string \<Rightarrow> bool" where
  "header_name n \<longleftrightarrow> n \<noteq> [] \<and> list_all token_char n"

definition headers_append :: "string \<Rightarrow> string \<Rightarrow> headers \<Rightarrow> js_error + headers" where
  "headers_append n v hs =
     (let v' = normalize_value v
      in if \<not> header_name n \<or> \<not> header_value v' then Inl TypeError
         else (case map_of hs (lower n) of
                 None \<Rightarrow> Inr (hs @ [(lower n, v')])
               | Some old \<Rightarrow> Inr (AList.update (lower n) (old @ '', '' @ v') hs)))"

fun fill_headers :: "(string \<times> string) list \<Rightarrow> headers \<Rightarrow> js_error + headers" where
  "fill_headers [] hs = Inr hs"
| "fill_headers ((n, v) # rest) hs =
     (case headers_append n v hs of Inl e \<Rightarrow> Inl e | Inr hs' \<Rightarrow> fill_headers rest hs')"

definition new_Headers :: "(string \<times> string) list \<Rightarrow> js_error + headers" where
  "new_Headers init = fill_headers init []"

definition headers_set :: "string \<Rightarrow> string \<Rightarrow> headers \<Rightarrow> js_error + headers" where
  "headers_set n v hs =
     (let v' = normalize_value v
      in if \<not> header_name n \<or> \<not> header_value v' then Inl TypeError
         else Inr (AList.update (lower n) v' hs))"


text \<open>
  \<open>options.body\<close>: a \<open>FormData\<close> (multipart) or any other value, \<open>undefined\<close> when
  absent.  \<open>opt_headers\<close> holds the entries of \<open>options.headers || {}\<close>, \<open>opt_other\<close>
  the options the wrapper passes through (method, cache).
\<close>

datatype reqbody = FormData "(string \<times> string) list" | Plain jsval

record options =
  opt_headers :: "(string \<times> string) list"
  opt_body :: reqbody
  opt_other :: "(string \<times> string) list"

record request =
  req_url :: string
  req_headers :: headers
  req_body :: reqbody
  req_other :: "(string \<times> string) list"

fun is_string :: "jsval \<Rightarrow> bool" where
  "is_string (JStr s) = True"
| "is_string _ = False"

text \<open>The headers and the body after the branch on \<open>options.body instanceof FormData\<close>.\<close>

definition encode_body :: "platform \<Rightarrow> reqbody \<Rightarrow> headers \<Rightarrow> js_error + headers \<times> reqbody" where
  "encode_body pf body headers0 =
     (case body of
        FormData fd \<Rightarrow> Inr (headers0, FormData fd)
      | Plain v \<Rightarrow>
          (case headers_set ''Content-Type'' ''application/json'' headers0 of
             Inl e \<Rightarrow> Inl e
           | Inr headers1 \<Rightarrow>
               Inr (headers1,
                    if truthy v \<and> \<not> is_string v then Plain (JStr (JSON_stringify pf v))
                    else Plain v)))"

text \<open>\<open>if (token) headers.set('Authorization', ...)\<close> with \<open>Bearer\<close>, a space and the token.\<close>

definition authorize :: "string option \<Rightarrow> headers \<Rightarrow> js_error + headers" where
  "authorize token headers1 =
     (case token of
        Some t \<Rightarrow> headers_set ''Authorization'' (''Bearer '' @ t) headers1
      | None \<Rightarrow> Inr headers1)"

text \<open>
  The wrapper up to its call of \<open>fetch\<close>: the request it dispatches, or the exception
  it throws before dispatching.
\<close>

definition fetchWithAuth_request ::
  "platform \<Rightarrow> storage \<Rightarrow> string \<Rightarrow> options \<Rightarrow> js_error + request" where
  "fetchWithAuth_request pf st path opts =
     (let token = getToken st
      in case new_Headers (opt_headers opts) of
           Inl e \<Rightarrow> Inl e
         | Inr headers0 \<Rightarrow>
             (case encode_body pf (opt_body opts) headers0 of
                Inl e \<Rightarrow> Inl e
              | Inr (headers1, body) \<Rightarrow>
                  (case authorize token headers1 of
                     Inl e \<Rightarrow> Inl e
                   | Inr headers2 \<Rightarrow>
                       Inr \<lparr>req_url = API_BASE pf @ path, req_headers = headers2,
                            req_body = body, req_other = opt_other opts\<rparr>)))"

text \<open>How the awaited \<open>fetch\<close> settles: it rejects, or resolves to a response with a status.\<close>

datatype fetch_outcome = FetchRejected | FetchResolved nat

definition res_ok :: "nat \<Rightarrow> bool" where
  "res_ok status \<longleftrightarrow> 200 \<le> status \<and> status \<le> 299"

text \<open>
  The wrapper after the awaited \<open>fetch\<close>: the global state it leaves and what its
  promise settles to (\<open>Inl\<close> a rejection, \<open>Inr\<close> the response status).
\<close>

definition fetchWithAuth_settle :: "session \<Rightarrow> fetch_outcome \<Rightarrow> session \<times> (js_error + nat)" where
  "fetchWithAuth_settle g out =
     (case out of
        FetchRejected \<Rightarrow> (g, Inl NetworkError)
      | FetchResolved status \<Rightarrow>
          if status = 401
          then ((logout g)\<lparr>location_href := ''login.html''\<rparr>, Inl Unauthorized)
          else (g, Inr status))"

text \<open>
  The end of \<open>updateProfileAvatar\<close>, after its awaited calls, with the parsed payload:
  the only other place, besides \<open>logout\<close>, that writes \<open>currentUser\<close> while a widget
  is on the page.  \<open>payload.id\<close> throws on \<open>null\<close>, which leaves \<open>currentUser\<close> as it
  was.  Of \<open>{ ...currentUser, ...payload }\<close> the named properties are kept.
\<close>

fun own_props :: "jsval \<Rightarrow> (string \<times> jsval) list" where
  "own_props (JObj kvs) = kvs"
| "own_props _ = []"

text \<open>\<open>v?.name\<close>\<close>

definition opt_prop :: "jsval \<Rightarrow> string \<Rightarrow> jsval" where
  "opt_prop v name = (case get_prop v name of Inl e \<Rightarrow> JUndefined | Inr x \<Rightarrow> x)"

definition updateProfileAvatar_merge :: "jsval \<Rightarrow> session \<Rightarrow> session" where
  "updateProfileAvatar_merge payload g =
     (if \<not> truthy (currentUser g) then g
      else (case get_prop payload ''id'' of
              Inl e \<Rightarrow> g
            | Inr pid \<Rightarrow>
                if strict_eq (opt_prop (currentUser g) ''id'') pid
                   \<or> strict_eq (opt_prop (currentUser g) ''_id'') pid
                then g\<lparr>currentUser := JObj (own_props payload @ own_props (currentUser g))\<rparr>
                else g))"

section \<open>Suggestion widgets: shared parts\<close>

text \<open>
  The conversion of a value to a string, which a template literal and an assignment
  to \<open>inputEl.value\<close> perform.  An object parsed from JSON that has a property
  \<open>toString\<close> has no callable conversion method left (its \<open>valueOf\<close> returns the
  object), so the conversion throws a TypeError; so does the conversion of an array
  with such an entry.
\<close>

fun convertible :: "jsval \<Rightarrow> bool" where
  "convertible (JArr xs) = (\<forall>x \<in> set xs. convertible x)"
| "convertible (JObj kvs) = (map_of kvs ''toString'' = None)"
| "convertible _ = True"

fun join_comma :: "string list \<Rightarrow> string" where
  "join_comma [] = []"
| "join_comma [s] = s"
| "join_comma (s # t # ss) = s @ '','' @ join_comma (t # ss)"

fun to_text :: "platform \<Rightarrow> jsval \<Rightarrow> string" where
  "to_text pf JUndefined = ''undefined''"
| "to_text pf JNull = ''null''"
| "to_text pf (JBool b) = (if b then ''true'' else ''false'')"
| "to_text pf (JNum n) = Number_toString pf n"
| "to_text pf (JStr s) = s"
| "to_text pf (JArr xs) =
     join_comma (map (\<lambda>x. if x = JUndefined \<or> x = JNull then [] else to_text pf x) xs)"
| "to_text pf (JObj kvs) = ''[object Object]''"

definition ToString :: "platform \<Rightarrow> jsval \<Rightarrow> js_error + string" where
  "ToString pf v = (if convertible v then Inr (to_text pf v) else Inl TypeError)"

text \<open>The setter of \<open>inputEl.value\<close> turns \<open>null\<close> into the empty string.\<close>

definition input_value_of :: "platform \<Rightarrow> jsval \<Rightarrow> js_error + string" where
  "input_value_of pf v = (if v = JNull then Inr [] else ToString pf v)"

definition DEFAULT_AVATAR :: string where
  "DEFAULT_AVATAR = ''https://placehold.co/40x40?text=%2B''"

text \<open>
  A suggestion or a selected person, with the three properties the widgets read.
\<close>

record item =
  item_id :: jsval
  item_name :: jsval
  item_avatarUrl :: jsval

text \<open>
  One \<open>div.suggestion-item\<close> of the markup that \<open>renderSuggestions\<close> writes: its
  \<open>data-index\<close> and the three interpolated texts.  Interpolating throws when a
  conversion does.
\<close>

record row =
  row_index :: nat
  row_src :: string
  row_alt :: string
  row_text :: string

definition render_row :: "platform \<Rightarrow> nat \<Rightarrow> item \<Rightarrow> js_error + row" where
  "render_row pf index it =
     (case ToString pf (escapeHtml (js_or (item_avatarUrl it) (JStr DEFAULT_AVATAR))) of
        Inl e \<Rightarrow> Inl e
      | Inr src \<Rightarrow>
          (case ToString pf (escapeHtml (item_name it)) of
             Inl e \<Rightarrow> Inl e
           | Inr nm \<Rightarrow>
               Inr \<lparr>row_index = index, row_src = src, row_alt = nm, row_text = nm\<rparr>))"

definition render_rows :: "platform \<Rightarrow> item list \<Rightarrow> js_error + row list" where
  "render_rows pf items = array_map (\<lambda>(index, it). render_row pf index it) (enumerate 0 items)"

text \<open>
  The browser's timers: \<open>setTimeout\<close> hands out a fresh positive handle and queues
  the callback, \<open>clearTimeout\<close> removes the timer with that handle.  The widgets queue
  two kinds of callback.
\<close>

datatype callback = FetchCb string | ClearCb

record timers =
  next_handle :: nat
  queue :: "(nat \<times> callback) list"

definition setTimeout :: "callback \<Rightarrow> timers \<Rightarrow> nat \<times> timers" where
  "setTimeout cb t =
     (let h = Suc (next_handle t) in (h, \<lparr>next_handle = h, queue = queue t @ [(h, cb)]\<rparr>))"

definition clearTimeout :: "nat \<Rightarrow> timers \<Rightarrow> timers" where
  "clearTimeout h t = t\<lparr>queue := filter (\<lambda>(h', cb). h' \<noteq> h) (queue t)\<rparr>"

text \<open>\<open>if (timeout) clearTimeout(timeout)\<close>: \<open>undefined\<close> and 0 are falsy.\<close>

definition clear_if_set :: "nat option \<Rightarrow> timers \<Rightarrow> timers" where
  "clear_if_set handle t =
     (case handle of None \<Rightarrow> t | Some h \<Rightarrow> if h \<noteq> 0 then clearTimeout h t else t)"

fun is_fetch :: "nat \<times> callback \<Rightarrow> bool" where
  "is_fetch (h, FetchCb q) = True"
| "is_fetch (h, ClearCb) = False"

text \<open>The pending debounce timers.\<close>

definition fetch_timers :: "timers \<Rightarrow> (nat \<times> callback) list" where
  "fetch_timers t = filter is_fetch (queue t)"

text \<open>
  A call of \<open>fetchSuggestions\<close> is suspended twice: at the awaited \<open>fetch\<close> and at
  the awaited \<open>res.json()\<close>.
\<close>

datatype stage = AwaitFetch | AwaitJson

datatype json_outcome = JsonRejected | JsonResolved jsval

datatype net_event = FetchSettled fetch_outcome | JsonSettled json_outcome

text \<open>
  How a piece of code stops: with an exception, at the next \<open>await\<close>, or by
  returning; each with the state it leaves.  An exception that leaves an event
  listener is reported by the browser and the page goes on in the state left.
\<close>

datatype 'w resumed = Thrown js_error 'w | Suspended 'w | Returned 'w

fun state_of :: "'w resumed \<Rightarrow> 'w" where
  "state_of (Thrown e w) = w"
| "state_of (Suspended w) = w"
| "state_of (Returned w) = w"

text \<open>
  What happens on the page: the user changes the text of the input (the \<open>input\<close>
  event), a queued timer fires, an awaited network promise of the call with the given
  number settles, a \<open>mousedown\<close> inside the suggestion list (on the item with the given
  \<open>data-index\<close>, or on none), the input loses focus, the form calls \<open>reset()\<close>, a click
  in the chip container (on the remove button with the given \<open>data-id\<close>, or on none),
  other code of the page calls \<open>logout()\<close>, and \<open>updateProfileAvatar\<close> receives its
  payload.
\<close>

datatype event =
    Input string
  | TimerFires nat
  | Net nat net_event
  | MouseDown "nat option"
  | Blur
  | Reset
  | RemoveClick "string option"
  | LogoutCalled
  | ProfileUpdated jsval

section \<open>Location autocomplete\<close>

record loc_request =
  lr_url :: string
  lr_params :: "(string \<times> string) list"
  lr_headers :: "(string \<times> string) list"

text \<open>
  The closure variables \<open>timeout\<close>, \<open>results\<close>, \<open>selectedValue\<close>, the two elements
  (\<open>inputEl.value\<close>; \<open>suggestionsEl.innerHTML\<close> and its \<open>hidden\<close> class), and the
  environment: queued timers, suspended calls and the log of dispatched requests.  A
  call is numbered by the position of its request in the log.
\<close>

record loc_widget =
  l_value :: string
  l_innerHTML :: "row list"
  l_hidden :: bool
  l_timeout :: "nat option"
  l_results :: "item list"
  l_selectedValue :: jsval
  l_timers :: timers
  l_inflight :: "(nat \<times> stage) list"
  l_requests :: "loc_request list"

definition setupLocationAutocomplete :: "string \<Rightarrow> loc_widget" where
  "setupLocationAutocomplete v0 =
     \<lparr>l_value = v0, l_innerHTML = [], l_hidden = True, l_timeout = None, l_results = [],
      l_selectedValue = JStr (trim v0), l_timers = \<lparr>next_handle = 0, queue = []\<rparr>,
      l_inflight = [], l_requests = []\<rparr>"

definition loc_clearSuggestions :: "loc_widget \<Rightarrow> loc_widget" where
  "loc_clearSuggestions w = w\<lparr>l_innerHTML := [], l_hidden := True, l_results := []\<rparr>"

definition loc_renderSuggestions ::
  "platform \<Rightarrow> item list \<Rightarrow> loc_widget \<Rightarrow> js_error + loc_widget" where
  "loc_renderSuggestions pf items w =
     (if items = [] then Inr (loc_clearSuggestions w)
      else (case render_rows pf items of
              Inl e \<Rightarrow> Inl e
            | Inr rows \<Rightarrow> Inr (w\<lparr>l_innerHTML := rows, l_hidden := False\<rparr>)))"

definition loc_fetch_request :: "string \<Rightarrow> loc_request" where
  "loc_fetch_request query =
     \<lparr>lr_url = ''https://nominatim.openstreetmap.org/search'',
      lr_params = [(''q'', query), (''format'', ''json''), (''limit'', ''7''),
                   (''addressdetails'', ''0'')],
      lr_headers = [(''Accept'', ''application/json'')]\<rparr>"

text \<open>\<open>fetchSuggestions(query)\<close> up to the awaited \<open>fetch\<close>.\<close>

definition loc_fetchSuggestions_call :: "string \<Rightarrow> loc_widget \<Rightarrow> loc_widget" where
  "loc_fetchSuggestions_call query w =
     w\<lparr>l_requests := l_requests w @ [loc_fetch_request query],
       l_inflight := l_inflight w @ [(length (l_requests w), AwaitFetch)]\<rparr>"

text \<open>The callback \<open>(item) => ({ id: item.place_id, name: item.display_name })\<close>.\<close>

definition loc_item_of :: "jsval \<Rightarrow> js_error + item" where
  "loc_item_of it =
     (case get_prop it ''place_id'' of
        Inl e \<Rightarrow> Inl e
      | Inr pid \<Rightarrow>
          (case get_prop it ''display_name'' of
             Inl e \<Rightarrow> Inl e
           | Inr nm \<Rightarrow> Inr \<lparr>item_id = pid, item_name = nm, item_avatarUrl = JUndefined\<rparr>))"

text \<open>The \<open>try\<close> block from the awaited \<open>fetch\<close> to the awaited \<open>res.json()\<close>.\<close>

definition loc_after_fetch :: "fetch_outcome \<Rightarrow> loc_widget \<Rightarrow> loc_widget resumed" where
  "loc_after_fetch out w =
     (case out of
        FetchRejected \<Rightarrow> Thrown NetworkError w
      | FetchResolved status \<Rightarrow>
          if \<not> res_ok status then Returned (loc_clearSuggestions w) else Suspended w)"

text \<open>
  The \<open>try\<close> block from the awaited \<open>res.json()\<close> to its end: \<open>results\<close> is assigned
  before \<open>renderSuggestions\<close> runs.
\<close>

definition loc_after_json ::
  "platform \<Rightarrow> json_outcome \<Rightarrow> loc_widget \<Rightarrow> loc_widget resumed" where
  "loc_after_json pf out w =
     (case out of
        JsonRejected \<Rightarrow> Thrown SyntaxError w
      | JsonResolved data \<Rightarrow>
          (case or_empty_array data of
             Inl e \<Rightarrow> Thrown e w
           | Inr xs \<Rightarrow>
               (case array_map loc_item_of xs of
                  Inl e \<Rightarrow> Thrown e w
                | Inr items \<Rightarrow>
                    (case loc_renderSuggestions pf items (w\<lparr>l_results := items\<rparr>) of
                       Inl e \<Rightarrow> Thrown e (w\<lparr>l_results := items\<rparr>)
                     | Inr w' \<Rightarrow> Returned w'))))"

text \<open>\<open>catch (error) { clearSuggestions(); }\<close>\<close>

definition loc_catch :: "loc_widget resumed \<Rightarrow> loc_widget resumed" where
  "loc_catch r = (case r of Thrown e w \<Rightarrow> Returned (loc_clearSuggestions w) | _ \<Rightarrow> r)"

text \<open>
  The suspended call \<open>k\<close> after the resumed step: it waits for the body, or it is over
  (returned, or rejected with an exception that left the function).
\<close>

definition loc_finish :: "nat \<Rightarrow> loc_widget resumed \<Rightarrow> loc_widget" where
  "loc_finish k r =
     (case r of
        Suspended w \<Rightarrow> w\<lparr>l_inflight := AList.update k AwaitJson (l_inflight w)\<rparr>
      | Returned w \<Rightarrow> w\<lparr>l_inflight := AList.delete k (l_inflight w)\<rparr>
      | Thrown e w \<Rightarrow> w\<lparr>l_inflight := AList.delete k (l_inflight w)\<rparr>)"

text \<open>
  The outcome of resuming call \<open>k\<close> with a settled promise; \<open>None\<close> when no call \<open>k\<close>
  is waiting for that promise.
\<close>

definition loc_resume ::
  "platform \<Rightarrow> nat \<Rightarrow> net_event \<Rightarrow> loc_widget \<Rightarrow> loc_widget resumed option" where
  "loc_resume pf k ev w =
     (case (map_of (l_inflight w) k, ev) of
        (Some AwaitFetch, FetchSettled out) \<Rightarrow> Some (loc_catch (loc_after_fetch out w))
      | (Some AwaitJson, JsonSettled out) \<Rightarrow> Some (loc_catch (loc_after_json pf out w))
      | _ \<Rightarrow> None)"

definition loc_on_net :: "platform \<Rightarrow> nat \<Rightarrow> net_event \<Rightarrow> loc_widget \<Rightarrow> loc_widget" where
  "loc_on_net pf k ev w =
     (case loc_resume pf k ev w of None \<Rightarrow> w | Some r \<Rightarrow> loc_finish k r)"

text \<open>The \<open>input\<close> listener.\<close>

definition loc_on_input :: "loc_widget \<Rightarrow> loc_widget" where
  "loc_on_input w =
     (let w1 = w\<lparr>l_selectedValue := JStr (trim (l_value w))\<rparr>;
          v = trim (l_value w1);
          w2 = w1\<lparr>l_timers := clear_if_set (l_timeout w1) (l_timers w1)\<rparr>
      in if length v < 2 then loc_clearSuggestions w2
         else (let (h, t) = setTimeout (FetchCb v) (l_timers w2)
               in w2\<lparr>l_timers := t, l_timeout := Some h\<rparr>))"

text \<open>
  The \<open>mousedown\<close> listener; \<open>results[index]\<close> is \<open>undefined\<close> out of range.  The
  listener has no \<open>try\<close>: when the assignment to \<open>inputEl.value\<close> throws,
  \<open>selectedValue\<close> has been assigned and nothing else.
\<close>

definition loc_on_mousedown ::
  "platform \<Rightarrow> nat option \<Rightarrow> loc_widget \<Rightarrow> loc_widget resumed" where
  "loc_on_mousedown pf target w =
     (case target of
        None \<Rightarrow> Returned w
      | Some index \<Rightarrow>
          if index < length (l_results w)
          then (let suggestion = l_results w ! index;
                    w1 = w\<lparr>l_selectedValue := item_name suggestion\<rparr>
                in case input_value_of pf (item_name suggestion) of
                     Inl e \<Rightarrow> Thrown e w1
                   | Inr s \<Rightarrow> Returned (loc_clearSuggestions (w1\<lparr>l_value := s\<rparr>)))
          else Returned w)"

definition loc_on_blur :: "loc_widget \<Rightarrow> loc_widget" where
  "loc_on_blur w = w\<lparr>l_timers := snd (setTimeout ClearCb (l_timers w))\<rparr>"

definition loc_run_callback :: "callback \<Rightarrow> loc_widget \<Rightarrow> loc_widget" where
  "loc_run_callback cb w =
     (case cb of FetchCb v \<Rightarrow> loc_fetchSuggestions_call v w | ClearCb \<Rightarrow> loc_clearSuggestions w)"

text \<open>A queued timer fires: it leaves the queue and its callback runs.\<close>

definition loc_on_timer :: "nat \<Rightarrow> loc_widget \<Rightarrow> loc_widget" where
  "loc_on_timer h w =
     (case map_of (queue (l_timers w)) h of
        None \<Rightarrow> w
      | Some cb \<Rightarrow> loc_run_callback cb (w\<lparr>l_timers := clearTimeout h (l_timers w)\<rparr>))"

definition loc_getValue :: "loc_widget \<Rightarrow> jsval" where
  "loc_getValue w = js_or (l_selectedValue w) (JStr (trim (l_value w)))"

definition loc_reset :: "loc_widget \<Rightarrow> loc_widget" where
  "loc_reset w = loc_clearSuggestions (w\<lparr>l_selectedValue := JStr [], l_value := []\<rparr>)"

fun loc_step :: "platform \<Rightarrow> loc_widget \<Rightarrow> event \<Rightarrow> loc_widget" where
  "loc_step pf w (Input text) = loc_on_input (w\<lparr>l_value := text\<rparr>)"
| "loc_step pf w (TimerFires h) = loc_on_timer h w"
| "loc_step pf w (Net k ev) = loc_on_net pf k ev w"
| "loc_step pf w (MouseDown target) = state_of (loc_on_mousedown pf target w)"
| "loc_step pf w Blur = loc_on_blur w"
| "loc_step pf w Reset = loc_reset w"
| "loc_step pf w (RemoveClick b) = w"
| "loc_step pf w LogoutCalled = w"
| "loc_step pf w (ProfileUpdated payload) = w"

definition loc_run :: "platform \<Rightarrow> loc_widget \<Rightarrow> event list \<Rightarrow> loc_widget" where
  "loc_run pf w evs = foldl (loc_step pf) w evs"

text \<open>The debounce interval elapses: every pending debounce timer fires.\<close>

definition loc_debounce_elapses :: "loc_widget \<Rightarrow> loc_widget" where
  "loc_debounce_elapses w =
     foldl (\<lambda>w' (h, cb). loc_on_timer h w') w (fetch_timers (l_timers w))"

section \<open>People selector\<close>

text \<open>
  One \<open>span.chip\<close> of the markup that \<open>renderSelected\<close> writes: its \<open>data-id\<close> (also
  the \<open>data-id\<close> of its remove button), which is \<open>person.id\<close> interpolated as it is,
  and the three escaped texts.
\<close>

record chip =
  chip_id :: string
  chip_src :: string
  chip_alt :: string
  chip_text :: string

definition render_chip :: "platform \<Rightarrow> item \<Rightarrow> js_error + chip" where
  "render_chip pf person =
     (case ToString pf (item_id person) of
        Inl e \<Rightarrow> Inl e
      | Inr ident \<Rightarrow>
          (case ToString pf (escapeHtml (js_or (item_avatarUrl person) (JStr DEFAULT_AVATAR))) of
             Inl e \<Rightarrow> Inl e
           | Inr src \<Rightarrow>
               (case ToString pf (escapeHtml (item_name person)) of
                  Inl e \<Rightarrow> Inl e
                | Inr nm \<Rightarrow>
                    Inr \<lparr>chip_id = ident, chip_src = src, chip_alt = nm, chip_text = nm\<rparr>)))"

text \<open>
  The closure variables \<open>selected\<close>, \<open>timeout\<close>, \<open>results\<close>, the three elements
  (\<open>inputEl.value\<close>, \<open>suggestionsEl\<close>, \<open>containerEl.innerHTML\<close>), the environment as
  for the location widget, and the global session state that \<open>fetchWithAuth\<close> reads
  and writes.
\<close>

record ppl_widget =
  p_value :: string
  p_innerHTML :: "row list"
  p_hidden :: bool
  p_chips :: "chip list"
  p_selected :: "item list"
  p_timeout :: "nat option"
  p_results :: "item list"
  p_timers :: timers
  p_inflight :: "(nat \<times> stage) list"
  p_requests :: "request list"
  p_session :: session

definition setupPeopleSelector :: "session \<Rightarrow> ppl_widget" where
  "setupPeopleSelector g =
     \<lparr>p_value = [], p_innerHTML = [], p_hidden = True, p_chips = [], p_selected = [],
      p_timeout = None, p_results = [], p_timers = \<lparr>next_handle = 0, queue = []\<rparr>,
      p_inflight = [], p_requests = [], p_session = g\<rparr>"

definition ppl_renderSelected :: "platform \<Rightarrow> ppl_widget \<Rightarrow> js_error + ppl_widget" where
  "ppl_renderSelected pf w =
     (if p_selected w = [] then Inr (w\<lparr>p_chips := []\<rparr>)
      else (case array_map (render_chip pf) (p_selected w) of
              Inl e \<Rightarrow> Inl e
            | Inr chips \<Rightarrow> Inr (w\<lparr>p_chips := chips\<rparr>)))"

definition ppl_clearSuggestions :: "ppl_widget \<Rightarrow> ppl_widget" where
  "ppl_clearSuggestions w = w\<lparr>p_innerHTML := [], p_hidden := True, p_results := []\<rparr>"

definition ppl_renderSuggestions ::
  "platform \<Rightarrow> item list \<Rightarrow> ppl_widget \<Rightarrow> js_error + ppl_widget" where
  "ppl_renderSuggestions pf items w =
     (if items = [] then Inr (ppl_clearSuggestions w)
      else (case render_rows pf items of
              Inl e \<Rightarrow> Inl e
            | Inr rows \<Rightarrow> Inr (w\<lparr>p_innerHTML := rows, p_hidden := False\<rparr>)))"

definition ppl_fetch_request :: "platform \<Rightarrow> storage \<Rightarrow> string \<Rightarrow> js_error + request" where
  "ppl_fetch_request pf st query =
     fetchWithAuth_request pf st (''/users/search?q='' @ encodeURIComponent pf query)
       \<lparr>opt_headers = [], opt_body = Plain JUndefined, opt_other = [(''method'', ''GET'')]\<rparr>"

text \<open>
  \<open>fetchSuggestions(query)\<close> up to the \<open>fetch\<close> awaited inside \<open>fetchWithAuth\<close>.  When
  \<open>fetchWithAuth\<close> throws before it dispatches, the \<open>catch\<close> clears the suggestions
  and no call is left suspended.
\<close>

definition ppl_fetchSuggestions_call :: "platform \<Rightarrow> string \<Rightarrow> ppl_widget \<Rightarrow> ppl_widget" where
  "ppl_fetchSuggestions_call pf query w =
     (case ppl_fetch_request pf (localStorage (p_session w)) query of
        Inl e \<Rightarrow> ppl_clearSuggestions w
      | Inr req \<Rightarrow>
          w\<lparr>p_requests := p_requests w @ [req],
            p_inflight := p_inflight w @ [(length (p_requests w), AwaitFetch)]\<rparr>)"

text \<open>\<open>new Set(ids).has(v)\<close>\<close>

definition set_has :: "jsval list \<Rightarrow> jsval \<Rightarrow> bool" where
  "set_has ids v = list_ex (\<lambda>x. strict_eq x v) ids"

text \<open>
  The filter callback
  \<open>(person) => !selectedIds.has(person.id) && person.id !== currentUser?.id\<close>.
\<close>

definition ppl_keep :: "jsval list \<Rightarrow> jsval \<Rightarrow> jsval \<Rightarrow> js_error + bool" where
  "ppl_keep selectedIds user person =
     (case get_prop person ''id'' of
        Inl e \<Rightarrow> Inl e
      | Inr pid \<Rightarrow> Inr (\<not> set_has selectedIds pid \<and> \<not> strict_eq pid (opt_prop user ''id'')))"

text \<open>
  The map callback \<open>(person) => ({ ...person, avatarUrl: person.avatarUrl || DEFAULT_AVATAR })\<close>,
  on the properties an \<^typ>\<open>item\<close> keeps.
\<close>

definition ppl_item_of :: "jsval \<Rightarrow> js_error + item" where
  "ppl_item_of person =
     (case get_prop person ''avatarUrl'' of
        Inl e \<Rightarrow> Inl e
      | Inr av \<Rightarrow>
          Inr \<lparr>item_id = opt_prop person ''id'', item_name = opt_prop person ''name'',
               item_avatarUrl = js_or av (JStr DEFAULT_AVATAR)\<rparr>)"

text \<open>
  The \<open>try\<close> block from the \<open>fetch\<close> awaited inside \<open>fetchWithAuth\<close> to the awaited
  \<open>res.json()\<close>.
\<close>

definition ppl_after_fetch :: "fetch_outcome \<Rightarrow> ppl_widget \<Rightarrow> ppl_widget resumed" where
  "ppl_after_fetch out w =
     (case fetchWithAuth_settle (p_session w) out of
        (g, Inl e) \<Rightarrow> Thrown e (w\<lparr>p_session := g\<rparr>)
      | (g, Inr status) \<Rightarrow>
          if \<not> res_ok status then Returned (ppl_clearSuggestions (w\<lparr>p_session := g\<rparr>))
          else Suspended (w\<lparr>p_session := g\<rparr>))"

text \<open>
  The \<open>try\<close> block from the awaited \<open>res.json()\<close> to its end: \<open>results\<close> is assigned
  before \<open>renderSuggestions\<close> runs.
\<close>

definition ppl_after_json ::
  "platform \<Rightarrow> json_outcome \<Rightarrow> ppl_widget \<Rightarrow> ppl_widget resumed" where
  "ppl_after_json pf out w =
     (case out of
        JsonRejected \<Rightarrow> Thrown SyntaxError w
      | JsonResolved data \<Rightarrow>
          (let selectedIds = map item_id (p_selected w)
           in case or_empty_array data of
                Inl e \<Rightarrow> Thrown e w
              | Inr xs \<Rightarrow>
                  (case array_filter (ppl_keep selectedIds (currentUser (p_session w))) xs of
                     Inl e \<Rightarrow> Thrown e w
                   | Inr kept \<Rightarrow>
                       (case array_map ppl_item_of kept of
                          Inl e \<Rightarrow> Thrown e w
                        | Inr items \<Rightarrow>
                            (case ppl_renderSuggestions pf items (w\<lparr>p_results := items\<rparr>) of
                               Inl e \<Rightarrow> Thrown e (w\<lparr>p_results := items\<rparr>)
                             | Inr w' \<Rightarrow> Returned w')))))"

definition ppl_catch :: "ppl_widget resumed \<Rightarrow> ppl_widget resumed" where
  "ppl_catch r = (case r of Thrown e w \<Rightarrow> Returned (ppl_clearSuggestions w) | _ \<Rightarrow> r)"

definition ppl_finish :: "nat \<Rightarrow> ppl_widget resumed \<Rightarrow> ppl_widget" where
  "ppl_finish k r =
     (case r of
        Suspended w \<Rightarrow> w\<lparr>p_inflight := AList.update k AwaitJson (p_inflight w)\<rparr>
      | Returned w \<Rightarrow> w\<lparr>p_inflight := AList.delete k (p_inflight w)\<rparr>
      | Thrown e w \<Rightarrow> w\<lparr>p_inflight := AList.delete k (p_inflight w)\<rparr>)"

definition ppl_resume ::
  "platform \<Rightarrow> nat \<Rightarrow> net_event \<Rightarrow> ppl_widget \<Rightarrow> ppl_widget resumed option" where
  "ppl_resume pf k ev w =
     (case (map_of (p_inflight w) k, ev) of
        (Some AwaitFetch, FetchSettled out) \<Rightarrow> Some (ppl_catch (ppl_after_fetch out w))
      | (Some AwaitJson, JsonSettled out) \<Rightarrow> Some (ppl_catch (ppl_after_json pf out w))
      | _ \<Rightarrow> None)"

definition ppl_on_net :: "platform \<Rightarrow> nat \<Rightarrow> net_event \<Rightarrow> ppl_widget \<Rightarrow> ppl_widget" where
  "ppl_on_net pf k ev w =
     (case ppl_resume pf k ev w of None \<Rightarrow> w | Some r \<Rightarrow> ppl_finish k r)"

text \<open>The \<open>input\<close> listener.\<close>

definition ppl_on_input :: "ppl_widget \<Rightarrow> ppl_widget" where
  "ppl_on_input w =
     (let v = trim (p_value w);
          w1 = w\<lparr>p_timers := clear_if_set (p_timeout w) (p_timers w)\<rparr>
      in if length v < 2 then ppl_clearSuggestions w1
         else (let (h, t) = setTimeout (FetchCb v) (p_timers w1)
               in w1\<lparr>p_timers := t, p_timeout := Some h\<rparr>))"

text \<open>
  The \<open>mousedown\<close> listener of the suggestion list.  It has no \<open>try\<close>: when
  \<open>renderSelected\<close> throws, the entry has been pushed and nothing else has happened,
  so the suggestion stays on offer.
\<close>

definition ppl_on_mousedown ::
  "platform \<Rightarrow> nat option \<Rightarrow> ppl_widget \<Rightarrow> ppl_widget resumed" where
  "ppl_on_mousedown pf target w =
     (case target of
        None \<Rightarrow> Returned w
      | Some index \<Rightarrow>
          if index < length (p_results w)
          then (let selection = p_results w ! index;
                    w1 = w\<lparr>p_selected := p_selected w @ [selection]\<rparr>
                in case ppl_renderSelected pf w1 of
                     Inl e \<Rightarrow> Thrown e w1
                   | Inr w2 \<Rightarrow> Returned (ppl_clearSuggestions (w2\<lparr>p_value := []\<rparr>)))
          else Returned w)"

text \<open>The \<open>click\<close> listener of the chip container.\<close>

definition ppl_on_remove ::
  "platform \<Rightarrow> string option \<Rightarrow> ppl_widget \<Rightarrow> ppl_widget resumed" where
  "ppl_on_remove pf button w =
     (case button of
        None \<Rightarrow> Returned w
      | Some ident \<Rightarrow>
          (let w1 = w\<lparr>p_selected :=
                       filter (\<lambda>person. \<not> strict_eq (item_id person) (JStr ident))
                         (p_selected w)\<rparr>
           in case ppl_renderSelected pf w1 of
                Inl e \<Rightarrow> Thrown e w1
              | Inr w2 \<Rightarrow> Returned w2))"

definition ppl_on_blur :: "ppl_widget \<Rightarrow> ppl_widget" where
  "ppl_on_blur w = w\<lparr>p_timers := snd (setTimeout ClearCb (p_timers w))\<rparr>"

definition ppl_run_callback :: "platform \<Rightarrow> callback \<Rightarrow> ppl_widget \<Rightarrow> ppl_widget" where
  "ppl_run_callback pf cb w =
     (case cb of
        FetchCb v \<Rightarrow> ppl_fetchSuggestions_call pf v w
      | ClearCb \<Rightarrow> ppl_clearSuggestions w)"

definition ppl_on_timer :: "platform \<Rightarrow> nat \<Rightarrow> ppl_widget \<Rightarrow> ppl_widget" where
  "ppl_on_timer pf h w =
     (case map_of (queue (p_timers w)) h of
        None \<Rightarrow> w
      | Some cb \<Rightarrow> ppl_run_callback pf cb (w\<lparr>p_timers := clearTimeout h (p_timers w)\<rparr>))"

definition ppl_getSelectedIds :: "ppl_widget \<Rightarrow> jsval list" where
  "ppl_getSelectedIds w = map item_id (p_selected w)"

definition ppl_reset :: "platform \<Rightarrow> ppl_widget \<Rightarrow> ppl_widget resumed" where
  "ppl_reset pf w =
     (let w1 = w\<lparr>p_selected := []\<rparr>
      in case ppl_renderSelected pf w1 of
           Inl e \<Rightarrow> Thrown e w1
         | Inr w2 \<Rightarrow> Returned ((ppl_clearSuggestions w2)\<lparr>p_value := []\<rparr>))"

fun ppl_step :: "platform \<Rightarrow> ppl_widget \<Rightarrow> event \<Rightarrow> ppl_widget" where
  "ppl_step pf w (Input text) = ppl_on_input (w\<lparr>p_value := text\<rparr>)"
| "ppl_step pf w (TimerFires h) = ppl_on_timer pf h w"
| "ppl_step pf w (Net k ev) = ppl_on_net pf k ev w"
| "ppl_step pf w (MouseDown target) = state_of (ppl_on_mousedown pf target w)"
| "ppl_step pf w Blur = ppl_on_blur w"
| "ppl_step pf w Reset = state_of (ppl_reset pf w)"
| "ppl_step pf w (RemoveClick button) = state_of (ppl_on_remove pf button w)"
| "ppl_step pf w LogoutCalled = w\<lparr>p_session := logout (p_session w)\<rparr>"
| "ppl_step pf w (ProfileUpdated payload) =
     w\<lparr>p_session := updateProfileAvatar_merge payload (p_session w)\<rparr>"

definition ppl_run :: "platform \<Rightarrow> ppl_widget \<Rightarrow> event list \<Rightarrow> ppl_widget" where
  "ppl_run pf w evs = foldl (ppl_step pf) w evs"

definition ppl_debounce_elapses :: "platform \<Rightarrow> ppl_widget \<Rightarrow> ppl_widget" where
  "ppl_debounce_elapses pf w =
     foldl (\<lambda>w' (h, cb). ppl_on_timer pf h w') w (fetch_timers (p_timers w))"

section \<open>Vocabulary of the properties\<close>

text \<open>The characters that open or close markup and attribute values.\<close>

definition markup_chars :: "char set" where
  "markup_chars = {CHR ''<'', CHR ''>'', CHR 0x22, CHR 0x27}"


text \<open>The suggestion list is empty and hidden.\<close>

definition loc_cleared :: "loc_widget \<Rightarrow> bool" where
  "loc_cleared w \<longleftrightarrow> l_innerHTML w = [] \<and> l_hidden w \<and> l_results w = []"

definition ppl_cleared :: "ppl_widget \<Rightarrow> bool" where
  "ppl_cleared w \<longleftrightarrow> p_innerHTML w = [] \<and> p_hidden w \<and> p_results w = []"





text \<open>
  The timers of a widget are in order: the queued handles are positive, distinct and
  not beyond the last handle given out, and a queued debounce timer is the one whose
  handle the widget has stored.
\<close>

definition timers_ok :: "nat option \<Rightarrow> timers \<Rightarrow> bool" where
  "timers_ok handle t \<longleftrightarrow>
     distinct (map fst (queue t))
     \<and> (\<forall>(h, cb) \<in> set (queue t).
           0 < h \<and> h \<le> next_handle t \<and> (is_fetch (h, cb) \<longrightarrow> handle = Some h))"








section \<open>A platform for the examples\<close>

text \<open>
  Decimal digits, which is how the platform prints an integer below \<open>10\<^sup>2\<^sup>1\<close>; a
  stand-in for \<open>JSON.stringify\<close>; an \<open>encodeURIComponent\<close> for texts without reserved
  characters.
\<close>

fun digits_of :: "nat \<Rightarrow> string" where
  "digits_of n =
     (if n < 10 then [char_of (48 + n)] else digits_of (n div 10) @ [char_of (48 + n mod 10)])"

declare digits_of.simps [simp del]

definition decimal :: "int \<Rightarrow> string" where
  "decimal n = (if n < 0 then CHR ''-'' # digits_of (nat (- n)) else digits_of (nat n))"

definition example_platform :: platform where
  "example_platform =
     \<lparr>API_BASE = ''https://host/api'', JSON_stringify = (\<lambda>v. ''{}''),
      encodeURIComponent = (\<lambda>s. s), Number_toString = decimal\<rparr>"

section \<open>HTML escaping: properties\<close>

lemma escape_lookup_special: "html_special c \<Longrightarrow> escape_lookup c = html_entity c"
  by (auto simp: html_special_def escape_lookup_def html_entity_def htmlEscapeMap_def)

lemma replace_each_entity:
  "replace_each html_special escape_lookup s = concat (map html_entity s)"
proof (induction s)
  case Nil
  show ?case by simp
next
  case (Cons c cs)
  show ?case
  proof (cases "html_special c")
    case True
    then show ?thesis using Cons by (simp add: escape_lookup_special)
  next
    case False
    then have "html_entity c = [c]" by (auto simp: html_special_def html_entity_def)
    with False Cons show ?thesis by simp
  qed
qed

lemma html_entity_safe: "set (html_entity c) \<inter> markup_chars = {}"
  by (auto simp: html_entity_def markup_chars_def)

lemma concat_entity_safe: "set (concat (map html_entity s)) \<inter> markup_chars = {}"
proof (induction s)
  case Nil
  show ?case by simp
next
  case (Cons c cs)
  have "set (concat (map html_entity (c # cs)))
      = set (html_entity c) \<union> set (concat (map html_entity cs))"
    by simp
  with Cons html_entity_safe [of c] show ?case by blast
qed

text \<open>
  Claim C9.  On a string, \<open>escapeHtml\<close> replaces every \<open>&\<close>, \<open><\<close>, \<open>>\<close>, double quote
  and single quote by its entity and leaves the other characters, so the result
  contains none of \<open><\<close>, \<open>>\<close>, double quote, single quote.  On \<open>null\<close> and \<open>undefined\<close>
  it returns the empty string; any other value that is not a string is returned
  unchanged.
\<close>

theorem escapeHtml_spec:
  "escapeHtml (JStr s) = JStr (concat (map html_entity s))
   \<and> (\<exists>r. escapeHtml (JStr s) = JStr r \<and> set r \<inter> markup_chars = {})
   \<and> escapeHtml JNull = JStr []
   \<and> escapeHtml JUndefined = JStr []
   \<and> escapeHtml (JBool b) = JBool b
   \<and> escapeHtml (JNum n) = JNum n
   \<and> escapeHtml (JArr xs) = JArr xs
   \<and> escapeHtml (JObj kvs) = JObj kvs"
proof -
  have a: "escapeHtml (JStr s) = JStr (concat (map html_entity s))"
    by (simp add: escapeHtml_def replace_each_entity)
  have b: "\<exists>r. escapeHtml (JStr s) = JStr r \<and> set r \<inter> markup_chars = {}"
    using a concat_entity_safe by blast
  have c: "escapeHtml JNull = JStr [] \<and> escapeHtml JUndefined = JStr []
      \<and> escapeHtml (JBool b) = JBool b \<and> escapeHtml (JNum n) = JNum n
      \<and> escapeHtml (JArr xs) = JArr xs \<and> escapeHtml (JObj kvs) = JObj kvs"
    by (simp add: escapeHtml_def)
  from a b c show ?thesis by blast
qed

section \<open>Session store: properties\<close>

lemma getToken_setItem: "t \<noteq> [] \<Longrightarrow> getToken (setToken (Some t) st) = Some t"
  by (simp add: getToken_def setToken_def store_or_remove_def setItem_def getItem_def
      or_null_def update_conv')

lemma getToken_removed: "getToken (setToken None st) = None"
  by (simp add: getToken_def setToken_def store_or_remove_def removeItem_def getItem_def
      or_null_def delete_conv')

text \<open>
  Claim C10.  After \<open>setToken(t)\<close> with a non-empty string \<open>t\<close>, \<open>getToken()\<close> returns
  \<open>t\<close>.  After \<open>setToken(null)\<close>, and on a store without the token key, it returns
  \<open>null\<close>; it never returns the empty string.
\<close>

theorem token_round_trip:
  "(t \<noteq> [] \<longrightarrow> getToken (setToken (Some t) st) = Some t)
   \<and> getToken (setToken None st) = None
   \<and> (getItem st ''photoshare_token'' = None \<longrightarrow> getToken st = None)
   \<and> getToken st \<noteq> Some []"
proof -
  have "getItem st ''photoshare_token'' = None \<longrightarrow> getToken st = None"
    by (simp add: getToken_def or_null_def)
  moreover have "getToken st \<noteq> Some []"
    by (simp add: getToken_def or_null_def split: option.splits)
  ultimately show ?thesis by (simp add: getToken_setItem getToken_removed)
qed

theorem token_round_trip_witness:
  "''abc'' \<noteq> []
   \<and> getToken (setToken (Some ''abc'') [(''photoshare_role'', ''viewer'')]) = Some ''abc''
   \<and> getItem [(''photoshare_role'', ''viewer'')] ''photoshare_token'' = None
   \<and> getToken [(''photoshare_role'', ''viewer'')] = None"
proof -
  have a: "''abc'' \<noteq> []" by simp
  have b: "getItem [(''photoshare_role'', ''viewer'')] ''photoshare_token'' = None"
    by (simp add: getItem_def)
  from a b token_round_trip [of "''abc''" "[(''photoshare_role'', ''viewer'')]"]
  show ?thesis by blast
qed

lemma logout_effect:
  "getToken (localStorage (logout g)) = None
   \<and> getUserRole (localStorage (logout g)) = None
   \<and> getUserName (localStorage (logout g)) = None
   \<and> currentUser (logout g) = JNull
   \<and> location_href (logout g) = ''login.html''"
  by (simp add: logout_def Let_def getToken_def getUserRole_def getUserName_def getItem_def
      or_null_def setToken_def setUserRole_def setUserName_def store_or_remove_def removeItem_def
      delete_conv')

section \<open>Authenticated fetch wrapper: properties\<close>

lemma unauthorized_response_effect:
  "snd (fetchWithAuth_settle g (FetchResolved 401)) = Inl Unauthorized
   \<and> getToken (localStorage (fst (fetchWithAuth_settle g (FetchResolved 401)))) = None
   \<and> getUserRole (localStorage (fst (fetchWithAuth_settle g (FetchResolved 401)))) = None
   \<and> getUserName (localStorage (fst (fetchWithAuth_settle g (FetchResolved 401)))) = None
   \<and> currentUser (fst (fetchWithAuth_settle g (FetchResolved 401))) = JNull
   \<and> location_href (fst (fetchWithAuth_settle g (FetchResolved 401))) = ''login.html''
   \<and> getItem (localStorage (fst (fetchWithAuth_settle g (FetchResolved 401))))
         ''photoshare_user_id''
       = getItem (localStorage g) ''photoshare_user_id''"
  using logout_effect [of g]
  by (simp add: fetchWithAuth_settle_def logout_def Let_def getItem_def setToken_def
      setUserRole_def setUserName_def store_or_remove_def removeItem_def delete_conv')

text \<open>
  Claim C3.  On a response with status 401 \<open>fetchWithAuth\<close> calls \<open>logout()\<close>, sets the
  location to \<open>login.html\<close> and rejects.  \<open>logout()\<close> removes the token, the role and the
  name and resets \<open>currentUser\<close>; the user id that the login form and \<open>hydrateSession\<close>
  persist under \<open>photoshare_user_id\<close> stays in the store.  Here a session as the login
  form leaves it receives a 401.
\<close>

theorem fetchWithAuth_401_keeps_user_id:
  "fetchWithAuth_settle
     \<lparr>localStorage = [(''photoshare_token'', ''tok''), (''photoshare_role'', ''creator''),
                      (''photoshare_name'', ''Al''), (''photoshare_user_id'', ''u1'')],
      currentUser = JObj [(''id'', JStr ''u1'')], location_href = ''index.html''\<rparr>
     (FetchResolved 401)
   = (\<lparr>localStorage = [(''photoshare_user_id'', ''u1'')], currentUser = JNull,
       location_href = ''login.html''\<rparr>, Inl Unauthorized)
   \<and> \<not> list_all
         (\<lambda>k. getItem [(''photoshare_user_id'', ''u1'')] k = None) session_keys"
  by (simp add: fetchWithAuth_settle_def logout_def setToken_def setUserRole_def setUserName_def
      store_or_remove_def removeItem_def session_keys_def getItem_def)

lemma lower_content_type: "lower ''Content-Type'' = ''content-type''"
  by code_simp

lemma lower_authorization: "lower ''Authorization'' = ''authorization''"
  by code_simp

lemma name_content_type: "header_name ''Content-Type''"
  by code_simp

lemma name_authorization: "header_name ''Authorization''"
  by code_simp

lemma value_json: "normalize_value ''application/json'' = ''application/json''
    \<and> header_value ''application/json''"
  by code_simp

lemma set_content_type:
  "headers_set ''Content-Type'' ''application/json'' hs
     = Inr (AList.update ''content-type'' ''application/json'' hs)"
  using value_json by (simp add: headers_set_def name_content_type lower_content_type)

lemma set_authorization:
  "headers_set ''Authorization'' v hs
     = (if header_value (normalize_value v)
        then Inr (AList.update ''authorization'' (normalize_value v) hs) else Inl TypeError)"
  by (simp add: headers_set_def name_authorization lower_authorization Let_def)












lemma request_built:
  assumes "new_Headers (opt_headers opts) = Inr headers0"
    and "getToken st = None \<or> (\<exists>t. getToken st = Some t \<and> header_value (normalize_value (''Bearer '' @ t)))"
  shows "\<exists>req. fetchWithAuth_request pf st path opts = Inr req"
  using assms
  by (cases "opt_body opts")
    (auto simp: fetchWithAuth_request_def Let_def encode_body_def set_content_type authorize_def
      set_authorization)





section \<open>Suggestion fetches that fail\<close>




























section \<open>Reset\<close>

lemma loc_reset_fields:
  "l_value (loc_reset w) = [] \<and> loc_cleared (loc_reset w)
   \<and> l_selectedValue (loc_reset w) = JStr []
   \<and> l_timers (loc_reset w) = l_timers w \<and> l_timeout (loc_reset w) = l_timeout w
   \<and> l_inflight (loc_reset w) = l_inflight w"
  by (simp add: loc_reset_def loc_clearSuggestions_def loc_cleared_def)

lemma ppl_reset_returns:
  "ppl_reset pf w
     = Returned (w\<lparr>p_selected := [], p_chips := [], p_innerHTML := [], p_hidden := True,
                   p_results := [], p_value := []\<rparr>)"
  by (simp add: ppl_reset_def ppl_renderSelected_def ppl_clearSuggestions_def Let_def)

lemma ppl_reset_fields:
  "p_value (state_of (ppl_reset pf w)) = [] \<and> ppl_cleared (state_of (ppl_reset pf w))
   \<and> p_selected (state_of (ppl_reset pf w)) = [] \<and> p_chips (state_of (ppl_reset pf w)) = []
   \<and> p_timers (state_of (ppl_reset pf w)) = p_timers w
   \<and> p_timeout (state_of (ppl_reset pf w)) = p_timeout w
   \<and> p_inflight (state_of (ppl_reset pf w)) = p_inflight w"
  by (simp add: ppl_reset_returns ppl_cleared_def)

lemma reset_effect:
  "l_value (loc_step pf w Reset) = [] \<and> loc_cleared (loc_step pf w Reset)
   \<and> l_selectedValue (loc_step pf w Reset) = JStr []
   \<and> l_timers (loc_step pf w Reset) = l_timers w
   \<and> l_timeout (loc_step pf w Reset) = l_timeout w
   \<and> l_inflight (loc_step pf w Reset) = l_inflight w
   \<and> p_value (ppl_step pf pw Reset) = [] \<and> ppl_cleared (ppl_step pf pw Reset)
   \<and> p_selected (ppl_step pf pw Reset) = [] \<and> p_chips (ppl_step pf pw Reset) = []
   \<and> p_timers (ppl_step pf pw Reset) = p_timers pw
   \<and> p_timeout (ppl_step pf pw Reset) = p_timeout pw
   \<and> p_inflight (ppl_step pf pw Reset) = p_inflight pw"
  using loc_reset_fields [of w] ppl_reset_fields [of pf pw] by simp

text \<open>
  Claim C2.  \<open>reset()\<close> empties the input text, the suggestion list, the committed
  value and the selection, but it does not call \<open>clearTimeout\<close>.  Here \<open>Paris\<close> (in
  the people selector \<open>alma\<close>) is typed and \<open>reset()\<close> is called before the debounce
  timer fires: the timer is still pending after the reset, whereas a freshly set up
  widget has none, and when it fires the query for the text that was reset is
  dispatched.
\<close>

theorem reset_leaves_timer_pending:
  "fetch_timers (l_timers (loc_run example_platform (setupLocationAutocomplete [])
        [Input ''Paris'', Reset]))
     = [(1, FetchCb ''Paris'')]
   \<and> fetch_timers (l_timers (setupLocationAutocomplete [])) = []
   \<and> map lr_params (l_requests (loc_run example_platform (setupLocationAutocomplete [])
        [Input ''Paris'', Reset, TimerFires 1]))
      = [[(''q'', ''Paris''), (''format'', ''json''), (''limit'', ''7''),
          (''addressdetails'', ''0'')]]
   \<and> fetch_timers (p_timers (ppl_run example_platform (setupPeopleSelector \<lparr>localStorage = [], currentUser = JNull, location_href = []\<rparr>)
        [Input ''alma'', Reset]))
     = [(1, FetchCb ''alma'')]
   \<and> fetch_timers (p_timers (setupPeopleSelector \<lparr>localStorage = [], currentUser = JNull, location_href = []\<rparr>)) = []
   \<and> map req_url (p_requests (ppl_run example_platform (setupPeopleSelector \<lparr>localStorage = [], currentUser = JNull, location_href = []\<rparr>)
        [Input ''alma'', Reset, TimerFires 1]))
      = [''https://host/api/users/search?q=alma'']"
  by code_simp

section \<open>Responses that arrive out of order\<close>

lemma render_rows_Nil: "render_rows pf [] = Inr []"
  by (simp add: render_rows_def)

lemma loc_body_rendered:
  assumes "map_of (l_inflight w) k = Some AwaitJson"
    and "or_empty_array data = Inr xs" and "array_map loc_item_of xs = Inr items"
    and "render_rows pf items = Inr rows"
  shows "l_innerHTML (loc_step pf w (Net k (JsonSettled (JsonResolved data)))) = rows
       \<and> l_results (loc_step pf w (Net k (JsonSettled (JsonResolved data)))) = items"
  using assms
  by (auto simp: loc_on_net_def loc_resume_def loc_after_json_def loc_catch_def loc_finish_def
      loc_renderSuggestions_def loc_clearSuggestions_def render_rows_Nil)

lemma loc_body_unrendered:
  assumes "map_of (l_inflight w) k = Some AwaitJson"
    and "or_empty_array data = Inr xs" and "array_map loc_item_of xs = Inr items"
    and "render_rows pf items = Inl e"
  shows "loc_cleared (loc_step pf w (Net k (JsonSettled (JsonResolved data))))"
  using assms
  by (auto simp: loc_on_net_def loc_resume_def loc_after_json_def loc_catch_def loc_finish_def
      loc_renderSuggestions_def loc_clearSuggestions_def loc_cleared_def)

lemma ppl_body_rendered:
  assumes "map_of (p_inflight w) k = Some AwaitJson"
    and "or_empty_array data = Inr xs"
    and "array_filter (ppl_keep (map item_id (p_selected w)) (currentUser (p_session w))) xs
          = Inr kept"
    and "array_map ppl_item_of kept = Inr items"
    and "render_rows pf items = Inr rows"
  shows "p_innerHTML (ppl_step pf w (Net k (JsonSettled (JsonResolved data)))) = rows
       \<and> p_results (ppl_step pf w (Net k (JsonSettled (JsonResolved data)))) = items"
  using assms
  by (auto simp: ppl_on_net_def ppl_resume_def ppl_after_json_def ppl_catch_def ppl_finish_def
      ppl_renderSuggestions_def ppl_clearSuggestions_def render_rows_Nil)

lemma ppl_body_unrendered:
  assumes "map_of (p_inflight w) k = Some AwaitJson"
    and "or_empty_array data = Inr xs"
    and "array_filter (ppl_keep (map item_id (p_selected w)) (currentUser (p_session w))) xs
          = Inr kept"
    and "array_map ppl_item_of kept = Inr items"
    and "render_rows pf items = Inl e"
  shows "ppl_cleared (ppl_step pf w (Net k (JsonSettled (JsonResolved data))))"
  using assms
  by (auto simp: ppl_on_net_def ppl_resume_def ppl_after_json_def ppl_catch_def ppl_finish_def
      ppl_renderSuggestions_def ppl_clearSuggestions_def ppl_cleared_def)

text \<open>
  Claim C1, as stated, fails: the query \<open>Pa\<close> is dispatched before the query \<open>Paris\<close>,
  the response for \<open>Paris\<close> arrives first and the response for \<open>Pa\<close> after it; the
  rendered list is then the result for \<open>Pa\<close>, the earlier query, not the result for
  \<open>Paris\<close>.
\<close>

theorem stale_response_counterexample:
  "map lr_params (l_requests (loc_run example_platform (setupLocationAutocomplete [])
      [Input ''Pa'', TimerFires 1, Input ''Paris'', TimerFires 2]))
     = [[(''q'', ''Pa''), (''format'', ''json''), (''limit'', ''7''), (''addressdetails'', ''0'')],
        [(''q'', ''Paris''), (''format'', ''json''), (''limit'', ''7''),
         (''addressdetails'', ''0'')]]
   \<and> l_innerHTML (loc_run example_platform (setupLocationAutocomplete [])
      [Input ''Pa'', TimerFires 1, Input ''Paris'', TimerFires 2,
       Net 1 (FetchSettled (FetchResolved 200)),
       Net 1 (JsonSettled (JsonResolved
         (JArr [JObj [(''place_id'', JNum 2), (''display_name'', JStr ''Paris, France'')]]))),
       Net 0 (FetchSettled (FetchResolved 200)),
       Net 0 (JsonSettled (JsonResolved
         (JArr [JObj [(''place_id'', JNum 1), (''display_name'', JStr ''Pa, Hawaii'')]])))])
     = [\<lparr>row_index = 0, row_src = DEFAULT_AVATAR, row_alt = ''Pa, Hawaii'',
         row_text = ''Pa, Hawaii''\<rparr>]
   \<and> render_rows example_platform
        [\<lparr>item_id = JNum 2, item_name = JStr ''Paris, France'', item_avatarUrl = JUndefined\<rparr>]
     = Inr [\<lparr>row_index = 0, row_src = DEFAULT_AVATAR, row_alt = ''Paris, France'',
             row_text = ''Paris, France''\<rparr>]
   \<and> [\<lparr>row_index = 0, row_src = DEFAULT_AVATAR, row_alt = ''Pa, Hawaii'',
         row_text = ''Pa, Hawaii''\<rparr>]
     \<noteq> [\<lparr>row_index = 0, row_src = DEFAULT_AVATAR, row_alt = ''Paris, France'',
          row_text = ''Paris, France''\<rparr>]"
  by code_simp

text \<open>
  Claim C1, amended.  A dispatched query carries no sequence number and no response
  is discarded: whenever the body of a response arrives for a suspended call, whatever
  was dispatched or has arrived since that call was made, and the body maps to items
  (in the people selector, those not yet selected and not the current user), then if
  the items can be written as rows the widget replaces its results by these items and
  the rendered list by their rows, and if writing a row throws the list is cleared.
  So the rendered list reflects the response that arrived last; it reflects the
  later-dispatched query only when the responses arrive in the order of dispatch.
\<close>

theorem arrived_body_is_rendered:
  "(map_of (l_inflight w) k = Some AwaitJson \<and> or_empty_array data = Inr xs
      \<and> array_map loc_item_of xs = Inr items \<longrightarrow>
      (render_rows pf items = Inr rows \<longrightarrow>
         l_innerHTML (loc_step pf w (Net k (JsonSettled (JsonResolved data)))) = rows
         \<and> l_results (loc_step pf w (Net k (JsonSettled (JsonResolved data)))) = items)
      \<and> (render_rows pf items = Inl e \<longrightarrow>
         loc_cleared (loc_step pf w (Net k (JsonSettled (JsonResolved data))))))
   \<and> (map_of (p_inflight pw) pk = Some AwaitJson \<and> or_empty_array pdata = Inr pxs
      \<and> array_filter (ppl_keep (map item_id (p_selected pw)) (currentUser (p_session pw))) pxs
           = Inr kept
      \<and> array_map ppl_item_of kept = Inr pitems \<longrightarrow>
      (render_rows pf pitems = Inr prows \<longrightarrow>
         p_innerHTML (ppl_step pf pw (Net pk (JsonSettled (JsonResolved pdata)))) = prows
         \<and> p_results (ppl_step pf pw (Net pk (JsonSettled (JsonResolved pdata)))) = pitems)
      \<and> (render_rows pf pitems = Inl e \<longrightarrow>
         ppl_cleared (ppl_step pf pw (Net pk (JsonSettled (JsonResolved pdata))))))"
  using loc_body_rendered [of w k data xs items pf rows]
    loc_body_unrendered [of w k data xs items pf e]
    ppl_body_rendered [of pw pk pdata pxs kept pitems pf prows]
    ppl_body_unrendered [of pw pk pdata pxs kept pitems pf e]
  by blast

theorem arrived_body_is_rendered_witness:
  "l_innerHTML (loc_step example_platform (loc_run example_platform (setupLocationAutocomplete [])
           [Input ''Pa'', TimerFires 1, Input ''Paris'', TimerFires 2,
            Net 0 (FetchSettled (FetchResolved 200))]) (Net 0 (JsonSettled (JsonResolved (JArr [JObj [(''place_id'', JNum 1), (''display_name'', JStr ''Pa, Hawaii'')]]))))) = [\<lparr>row_index = 0, row_src = DEFAULT_AVATAR, row_alt = ''Pa, Hawaii'',
            row_text = ''Pa, Hawaii''\<rparr>]
   \<and> l_results (loc_step example_platform (loc_run example_platform (setupLocationAutocomplete [])
           [Input ''Pa'', TimerFires 1, Input ''Paris'', TimerFires 2,
            Net 0 (FetchSettled (FetchResolved 200))]) (Net 0 (JsonSettled (JsonResolved (JArr [JObj [(''place_id'', JNum 1), (''display_name'', JStr ''Pa, Hawaii'')]]))))) = [\<lparr>item_id = JNum 1, item_name = JStr ''Pa, Hawaii'', item_avatarUrl = JUndefined\<rparr>]
   \<and> p_innerHTML (ppl_step example_platform (ppl_run example_platform (setupPeopleSelector \<lparr>localStorage = [], currentUser = JObj [(''id'', JStr ''u1'')], location_href = []\<rparr>)
           [Input ''al'', TimerFires 1, Net 0 (FetchSettled (FetchResolved 200))]) (Net 0 (JsonSettled (JsonResolved (JArr [JObj [(''id'', JStr ''u1''), (''name'', JStr ''Al'')],
                  JObj [(''id'', JStr ''u2''), (''name'', JStr ''Alma'')]]))))) = [\<lparr>row_index = 0, row_src = DEFAULT_AVATAR, row_alt = ''Alma'', row_text = ''Alma''\<rparr>]
   \<and> p_results (ppl_step example_platform (ppl_run example_platform (setupPeopleSelector \<lparr>localStorage = [], currentUser = JObj [(''id'', JStr ''u1'')], location_href = []\<rparr>)
           [Input ''al'', TimerFires 1, Net 0 (FetchSettled (FetchResolved 200))]) (Net 0 (JsonSettled (JsonResolved (JArr [JObj [(''id'', JStr ''u1''), (''name'', JStr ''Al'')],
                  JObj [(''id'', JStr ''u2''), (''name'', JStr ''Alma'')]]))))) = [\<lparr>item_id = JStr ''u2'', item_name = JStr ''Alma'',
             item_avatarUrl = JStr DEFAULT_AVATAR\<rparr>]"
proof -
  have l1: "map_of (l_inflight (loc_run example_platform (setupLocationAutocomplete [])
           [Input ''Pa'', TimerFires 1, Input ''Paris'', TimerFires 2,
            Net 0 (FetchSettled (FetchResolved 200))])) 0 = Some AwaitJson" by code_simp
  have l2: "or_empty_array (JArr [JObj [(''place_id'', JNum 1), (''display_name'', JStr ''Pa, Hawaii'')]]) = Inr [JObj [(''place_id'', JNum 1), (''display_name'', JStr ''Pa, Hawaii'')]]" by code_simp
  have l3: "array_map loc_item_of [JObj [(''place_id'', JNum 1), (''display_name'', JStr ''Pa, Hawaii'')]] = Inr [\<lparr>item_id = JNum 1, item_name = JStr ''Pa, Hawaii'', item_avatarUrl = JUndefined\<rparr>]" by code_simp
  have l4: "render_rows example_platform [\<lparr>item_id = JNum 1, item_name = JStr ''Pa, Hawaii'', item_avatarUrl = JUndefined\<rparr>] = Inr [\<lparr>row_index = 0, row_src = DEFAULT_AVATAR, row_alt = ''Pa, Hawaii'',
            row_text = ''Pa, Hawaii''\<rparr>]" by code_simp
  have p1: "map_of (p_inflight (ppl_run example_platform (setupPeopleSelector \<lparr>localStorage = [], currentUser = JObj [(''id'', JStr ''u1'')], location_href = []\<rparr>)
           [Input ''al'', TimerFires 1, Net 0 (FetchSettled (FetchResolved 200))])) 0 = Some AwaitJson" by code_simp
  have p2: "or_empty_array (JArr [JObj [(''id'', JStr ''u1''), (''name'', JStr ''Al'')],
                  JObj [(''id'', JStr ''u2''), (''name'', JStr ''Alma'')]]) = Inr [JObj [(''id'', JStr ''u1''), (''name'', JStr ''Al'')],
             JObj [(''id'', JStr ''u2''), (''name'', JStr ''Alma'')]]" by code_simp
  have p3: "array_filter (ppl_keep (map item_id (p_selected (ppl_run example_platform (setupPeopleSelector \<lparr>localStorage = [], currentUser = JObj [(''id'', JStr ''u1'')], location_href = []\<rparr>)
           [Input ''al'', TimerFires 1, Net 0 (FetchSettled (FetchResolved 200))]))) (currentUser (p_session (ppl_run example_platform (setupPeopleSelector \<lparr>localStorage = [], currentUser = JObj [(''id'', JStr ''u1'')], location_href = []\<rparr>)
           [Input ''al'', TimerFires 1, Net 0 (FetchSettled (FetchResolved 200))]))))
        [JObj [(''id'', JStr ''u1''), (''name'', JStr ''Al'')],
             JObj [(''id'', JStr ''u2''), (''name'', JStr ''Alma'')]] = Inr [JObj [(''id'', JStr ''u2''), (''name'', JStr ''Alma'')]]"
    by code_simp
  have p4: "array_map ppl_item_of [JObj [(''id'', JStr ''u2''), (''name'', JStr ''Alma'')]] = Inr [\<lparr>item_id = JStr ''u2'', item_name = JStr ''Alma'',
             item_avatarUrl = JStr DEFAULT_AVATAR\<rparr>]" by code_simp
  have p5: "render_rows example_platform [\<lparr>item_id = JStr ''u2'', item_name = JStr ''Alma'',
             item_avatarUrl = JStr DEFAULT_AVATAR\<rparr>] = Inr [\<lparr>row_index = 0, row_src = DEFAULT_AVATAR, row_alt = ''Alma'', row_text = ''Alma''\<rparr>]" by code_simp
  from l1 l2 l3 l4 p1 p2 p3 p4 p5 arrived_body_is_rendered
    [where w = "(loc_run example_platform (setupLocationAutocomplete [])
           [Input ''Pa'', TimerFires 1, Input ''Paris'', TimerFires 2,
            Net 0 (FetchSettled (FetchResolved 200))])" and k = 0 and data = "(JArr [JObj [(''place_id'', JNum 1), (''display_name'', JStr ''Pa, Hawaii'')]])" and xs = "[JObj [(''place_id'', JNum 1), (''display_name'', JStr ''Pa, Hawaii'')]]" and items = "[\<lparr>item_id = JNum 1, item_name = JStr ''Pa, Hawaii'', item_avatarUrl = JUndefined\<rparr>]"
       and pf = example_platform and rows = "[\<lparr>row_index = 0, row_src = DEFAULT_AVATAR, row_alt = ''Pa, Hawaii'',
            row_text = ''Pa, Hawaii''\<rparr>]"
       and pw = "(ppl_run example_platform (setupPeopleSelector \<lparr>localStorage = [], currentUser = JObj [(''id'', JStr ''u1'')], location_href = []\<rparr>)
           [Input ''al'', TimerFires 1, Net 0 (FetchSettled (FetchResolved 200))])" and pk = 0 and pdata = "(JArr [JObj [(''id'', JStr ''u1''), (''name'', JStr ''Al'')],
                  JObj [(''id'', JStr ''u2''), (''name'', JStr ''Alma'')]])" and pxs = "[JObj [(''id'', JStr ''u1''), (''name'', JStr ''Al'')],
             JObj [(''id'', JStr ''u2''), (''name'', JStr ''Alma'')]]" and kept = "[JObj [(''id'', JStr ''u2''), (''name'', JStr ''Alma'')]]"
       and pitems = "[\<lparr>item_id = JStr ''u2'', item_name = JStr ''Alma'',
             item_avatarUrl = JStr DEFAULT_AVATAR\<rparr>]" and prows = "[\<lparr>row_index = 0, row_src = DEFAULT_AVATAR, row_alt = ''Alma'', row_text = ''Alma''\<rparr>]"]
  show ?thesis by blast
qed

section \<open>Debounce timers\<close>

lemma timers_ok_empty: "timers_ok None \<lparr>next_handle = 0, queue = []\<rparr>"
  by (simp add: timers_ok_def)

lemma fetch_timers_clearTimeout:
  "fetch_timers (clearTimeout h t) = filter (\<lambda>(h', cb). h' \<noteq> h) (fetch_timers t)"
  by (simp add: fetch_timers_def clearTimeout_def) (metis (mono_tags, lifting) filter_cong filter_filter conj_commute)

lemma timers_ok_clearTimeout: "timers_ok handle t \<Longrightarrow> timers_ok handle (clearTimeout h t)"
  by (auto simp: timers_ok_def clearTimeout_def distinct_map_filter)

lemma fetch_timers_cancelled:
  assumes "timers_ok handle t"
  shows "fetch_timers (clear_if_set handle t) = []"
proof -
  have "\<not> is_fetch x" if "x \<in> set (queue (clear_if_set handle t))" for x
  proof
    assume f: "is_fetch x"
    obtain h cb where x: "x = (h, cb)" by (cases x)
    from that have "x \<in> set (queue t)"
      by (auto simp: clear_if_set_def clearTimeout_def split: option.splits if_splits)
    with assms f x have hh: "handle = Some h" and pos: "0 < h"
      by (auto simp: timers_ok_def)
    with that x show False
      by (auto simp: clear_if_set_def clearTimeout_def)
  qed
  then show ?thesis by (simp add: fetch_timers_def filter_empty_conv)
qed

lemma timers_ok_cancelled:
  assumes "timers_ok handle t"
  shows "timers_ok handle' (clear_if_set handle t)"
proof -
  have q: "set (queue (clear_if_set handle t)) \<subseteq> set (queue t)"
    by (auto simp: clear_if_set_def clearTimeout_def split: option.splits if_splits)
  have n: "next_handle (clear_if_set handle t) = next_handle t"
    by (auto simp: clear_if_set_def clearTimeout_def split: option.splits if_splits)
  have d: "distinct (map fst (queue (clear_if_set handle t)))"
    using assms
    by (auto simp: clear_if_set_def clearTimeout_def timers_ok_def distinct_map_filter
        split: option.splits if_splits)
  have nf: "\<not> is_fetch x" if "x \<in> set (queue (clear_if_set handle t))" for x
    using fetch_timers_cancelled [OF assms] that
    by (auto simp: fetch_timers_def filter_empty_conv)
  show ?thesis
    unfolding timers_ok_def
  proof (intro conjI ballI)
    show "distinct (map fst (queue (clear_if_set handle t)))" by (rule d)
  next
    fix x assume x: "x \<in> set (queue (clear_if_set handle t))"
    with q have "x \<in> set (queue t)" by blast
    with assms n nf [OF x]
    show "case x of (h, cb) \<Rightarrow> 0 < h \<and> h \<le> next_handle (clear_if_set handle t)
            \<and> (is_fetch (h, cb) \<longrightarrow> handle' = Some h)"
      by (auto simp: timers_ok_def)
  qed
qed

lemma setTimeout_fetch:
  assumes "timers_ok handle t" and "fetch_timers t = []"
    and "setTimeout (FetchCb v) t = (h, t')"
  shows "timers_ok (Some h) t' \<and> fetch_timers t' = [(h, FetchCb v)]"
proof -
  from assms(3) have h: "h = Suc (next_handle t)"
    and t': "t' = \<lparr>next_handle = h, queue = queue t @ [(h, FetchCb v)]\<rparr>"
    by (auto simp: setTimeout_def Let_def)
  have nf: "\<not> is_fetch x" if "x \<in> set (queue t)" for x
    using assms(2) that by (auto simp: fetch_timers_def filter_empty_conv)
  have fresh: "h \<notin> fst ` set (queue t)"
    using assms(1) h by (fastforce simp: timers_ok_def)
  have "fetch_timers t' = [(h, FetchCb v)]"
    using assms(2) t' by (simp add: fetch_timers_def)
  moreover have "timers_ok (Some h) t'"
    unfolding timers_ok_def
  proof (intro conjI ballI)
    show "distinct (map fst (queue t'))"
      using assms(1) fresh t' by (simp add: timers_ok_def)
  next
    fix x assume "x \<in> set (queue t')"
    then consider "x \<in> set (queue t)" | "x = (h, FetchCb v)" using t' by auto
    then show "case x of (h', cb) \<Rightarrow> 0 < h' \<and> h' \<le> next_handle t'
            \<and> (is_fetch (h', cb) \<longrightarrow> Some h = Some h')"
    proof cases
      case 1
      with assms(1) nf [OF 1] h t' show ?thesis by (fastforce simp: timers_ok_def)
    next
      case 2
      with h t' show ?thesis by simp
    qed
  qed
  ultimately show ?thesis by simp
qed

lemma setTimeout_clear:
  assumes "timers_ok handle t"
  shows "timers_ok handle (snd (setTimeout ClearCb t))
       \<and> fetch_timers (snd (setTimeout ClearCb t)) = fetch_timers t"
proof -
  let ?h = "Suc (next_handle t)"
  have t': "snd (setTimeout ClearCb t) = \<lparr>next_handle = ?h, queue = queue t @ [(?h, ClearCb)]\<rparr>"
    by (simp add: setTimeout_def Let_def)
  have fresh: "?h \<notin> fst ` set (queue t)"
    using assms by (fastforce simp: timers_ok_def)
  have "timers_ok handle \<lparr>next_handle = ?h, queue = queue t @ [(?h, ClearCb)]\<rparr>"
    using assms fresh by (fastforce simp: timers_ok_def)
  with t' show ?thesis by (simp add: fetch_timers_def)
qed

lemma map_of_queued:
  assumes "timers_ok handle t" and "(h, cb) \<in> set (queue t)"
  shows "map_of (queue t) h = Some cb"
  using assms by (simp add: timers_ok_def)

lemma loc_input_unfold:
  "loc_on_input (w\<lparr>l_value := s\<rparr>) =
     (if length (trim s) < 2
      then loc_clearSuggestions
             (w\<lparr>l_value := s, l_selectedValue := JStr (trim s),
                l_timers := clear_if_set (l_timeout w) (l_timers w)\<rparr>)
      else w\<lparr>l_value := s, l_selectedValue := JStr (trim s),
             l_timers := snd (setTimeout (FetchCb (trim s))
                                (clear_if_set (l_timeout w) (l_timers w))),
             l_timeout := Some (fst (setTimeout (FetchCb (trim s))
                                (clear_if_set (l_timeout w) (l_timers w))))\<rparr>)"
  by (simp add: loc_on_input_def Let_def split_beta)

lemma loc_input_short:
  assumes "timers_ok (l_timeout w) (l_timers w)" and "length (trim s) < 2"
  shows "timers_ok (l_timeout (loc_step pf w (Input s))) (l_timers (loc_step pf w (Input s)))
       \<and> fetch_timers (l_timers (loc_step pf w (Input s))) = []
       \<and> loc_cleared (loc_step pf w (Input s))
       \<and> l_requests (loc_step pf w (Input s)) = l_requests w
       \<and> l_inflight (loc_step pf w (Input s)) = l_inflight w"
  using assms(2) timers_ok_cancelled [OF assms(1)] fetch_timers_cancelled [OF assms(1)]
  by (simp add: loc_input_unfold loc_clearSuggestions_def loc_cleared_def)

lemma loc_input_long:
  assumes "timers_ok (l_timeout w) (l_timers w)" and "\<not> length (trim s) < 2"
  shows "timers_ok (l_timeout (loc_step pf w (Input s))) (l_timers (loc_step pf w (Input s)))
       \<and> fetch_timers (l_timers (loc_step pf w (Input s)))
           = [(the (l_timeout (loc_step pf w (Input s))), FetchCb (trim s))]
       \<and> l_requests (loc_step pf w (Input s)) = l_requests w
       \<and> l_inflight (loc_step pf w (Input s)) = l_inflight w"
proof -
  obtain h t' where st: "setTimeout (FetchCb (trim s))
      (clear_if_set (l_timeout w) (l_timers w)) = (h, t')"
    by (cases "setTimeout (FetchCb (trim s)) (clear_if_set (l_timeout w) (l_timers w))")
  from setTimeout_fetch [OF timers_ok_cancelled [OF assms(1)] fetch_timers_cancelled [OF assms(1)] st]
  have "timers_ok (Some h) t'" and "fetch_timers t' = [(h, FetchCb (trim s))]" by simp_all
  with assms(2) st show ?thesis by (simp add: loc_input_unfold)
qed

lemma loc_input_timers_ok:
  assumes "timers_ok (l_timeout w) (l_timers w)"
  shows "timers_ok (l_timeout (loc_step pf w (Input s))) (l_timers (loc_step pf w (Input s)))
       \<and> l_requests (loc_step pf w (Input s)) = l_requests w"
  using loc_input_short [OF assms, where s = "s" and pf = pf]
    loc_input_long [OF assms, where s = "s" and pf = pf]
  by blast

lemma loc_net_timers:
  "l_timers (loc_on_net pf k ev w) = l_timers w \<and> l_timeout (loc_on_net pf k ev w) = l_timeout w"
  by (auto simp: loc_on_net_def loc_resume_def loc_finish_def loc_catch_def loc_after_fetch_def
      loc_after_json_def loc_clearSuggestions_def loc_renderSuggestions_def
      split: option.splits stage.splits net_event.splits fetch_outcome.splits
        json_outcome.splits sum.splits)

lemma loc_timer_timers:
  "l_timers (loc_on_timer h w) = (if map_of (queue (l_timers w)) h = None then l_timers w
       else clearTimeout h (l_timers w))
   \<and> l_timeout (loc_on_timer h w) = l_timeout w"
  by (auto simp: loc_on_timer_def loc_run_callback_def loc_fetchSuggestions_call_def
      loc_clearSuggestions_def split: option.splits callback.splits)

lemma loc_mousedown_timers:
  "l_timers (state_of (loc_on_mousedown pf target w)) = l_timers w
   \<and> l_timeout (state_of (loc_on_mousedown pf target w)) = l_timeout w"
  by (auto simp: loc_on_mousedown_def loc_clearSuggestions_def Let_def
      split: option.splits sum.splits)

lemma loc_step_timers_ok:
  assumes "timers_ok (l_timeout w) (l_timers w)"
  shows "timers_ok (l_timeout (loc_step pf w ev)) (l_timers (loc_step pf w ev))"
proof (cases ev)
  case (Input s)
  then show ?thesis using loc_input_timers_ok [OF assms] by simp
next
  case (TimerFires h)
  then show ?thesis using assms timers_ok_clearTimeout by (simp add: loc_timer_timers)
next
  case (Net k e)
  then show ?thesis using assms by (simp add: loc_net_timers)
next
  case (MouseDown target)
  then show ?thesis using assms by (simp add: loc_mousedown_timers)
next
  case Blur
  then show ?thesis using setTimeout_clear [OF assms] by (simp add: loc_on_blur_def)
next
  case Reset
  then show ?thesis using assms by (simp add: loc_reset_def loc_clearSuggestions_def)
next
  case (RemoveClick b)
  then show ?thesis using assms by simp
next
  case LogoutCalled
  then show ?thesis using assms by simp
next
  case (ProfileUpdated payload)
  then show ?thesis using assms by simp
qed

lemma loc_run_timers_ok:
  "timers_ok (l_timeout w) (l_timers w) \<Longrightarrow>
   timers_ok (l_timeout (loc_run pf w evs)) (l_timers (loc_run pf w evs))"
  unfolding loc_run_def
  by (induction evs arbitrary: w) (simp_all add: loc_step_timers_ok)

lemma loc_reachable_timers_ok:
  "timers_ok (l_timeout (loc_run pf (setupLocationAutocomplete v0) evs))
     (l_timers (loc_run pf (setupLocationAutocomplete v0) evs))"
  by (rule loc_run_timers_ok) (simp add: setupLocationAutocomplete_def timers_ok_def)

lemma loc_burst:
  "timers_ok (l_timeout w) (l_timers w) \<Longrightarrow>
   timers_ok (l_timeout (loc_run pf w (map Input texts))) (l_timers (loc_run pf w (map Input texts)))
   \<and> l_requests (loc_run pf w (map Input texts)) = l_requests w"
  unfolding loc_run_def
proof (induction texts arbitrary: w)
  case Nil
  then show ?case by simp
next
  case (Cons a texts)
  from loc_input_timers_ok [OF Cons.prems, where s = a and pf = pf]
    Cons.IH [of "loc_step pf w (Input a)"]
  show ?case by simp
qed

lemma loc_run_snoc: "loc_run pf w (evs @ [ev]) = loc_step pf (loc_run pf w evs) ev"
  by (simp add: loc_run_def)

lemma loc_elapses_none:
  "fetch_timers (l_timers w) = [] \<Longrightarrow> loc_debounce_elapses w = w"
  by (simp add: loc_debounce_elapses_def)

lemma loc_elapses_one:
  assumes "timers_ok (l_timeout w) (l_timers w)"
    and "fetch_timers (l_timers w) = [(h, FetchCb q)]"
  shows "l_requests (loc_debounce_elapses w) = l_requests w @ [loc_fetch_request q]
       \<and> fetch_timers (l_timers (loc_debounce_elapses w)) = []"
proof -
  have "(h, FetchCb q) \<in> set (fetch_timers (l_timers w))" using assms(2) by simp
  then have "(h, FetchCb q) \<in> set (queue (l_timers w))" by (simp add: fetch_timers_def)
  from map_of_queued [OF assms(1) this]
  have m: "map_of (queue (l_timers w)) h = Some (FetchCb q)" .
  have e: "loc_debounce_elapses w = loc_on_timer h w"
    using assms(2) by (simp add: loc_debounce_elapses_def)
  have "fetch_timers (clearTimeout h (l_timers w)) = []"
    using assms(2) by (simp add: fetch_timers_clearTimeout)
  with m e show ?thesis
    by (simp add: loc_on_timer_def loc_run_callback_def loc_fetchSuggestions_call_def)
qed

lemma loc_coalesce:
  assumes "timers_ok (l_timeout w) (l_timers w)" and "texts \<noteq> []"
  shows "l_requests (loc_run pf w (map Input texts)) = l_requests w
       \<and> l_requests (loc_debounce_elapses (loc_run pf w (map Input texts)))
           = l_requests w @ (if 2 \<le> length (trim (last texts))
                             then [loc_fetch_request (trim (last texts))] else [])
       \<and> fetch_timers (l_timers (loc_debounce_elapses (loc_run pf w (map Input texts)))) = []"
proof -
  define w0 where "w0 = loc_run pf w (map Input (butlast texts))"
  define w1 where "w1 = loc_step pf w0 (Input (last texts))"
  from assms(2) have "texts = butlast texts @ [last texts]" by simp
  then have "map Input texts = map Input (butlast texts) @ [Input (last texts)]"
    by (metis list.simps(8,9) map_append)
  then have run: "loc_run pf w (map Input texts) = w1"
    by (simp add: w1_def w0_def loc_run_snoc)
  from loc_burst [OF assms(1), where texts = "butlast texts" and pf = pf]
  have ok0: "timers_ok (l_timeout w0) (l_timers w0)" and r0: "l_requests w0 = l_requests w"
    by (simp_all add: w0_def)
  show ?thesis
  proof (cases "length (trim (last texts)) < 2")
    case True
    from loc_input_short [OF ok0 True, where pf = pf] r0
    have "fetch_timers (l_timers w1) = []" and "l_requests w1 = l_requests w"
      by (simp_all add: w1_def)
    with True run show ?thesis by (simp add: loc_elapses_none)
  next
    case False
    from loc_input_long [OF ok0 False, where pf = pf] r0
    have ok1: "timers_ok (l_timeout w1) (l_timers w1)"
      and f1: "fetch_timers (l_timers w1) = [(the (l_timeout w1), FetchCb (trim (last texts)))]"
      and r1: "l_requests w1 = l_requests w"
      by (simp_all add: w1_def)
    from loc_elapses_one [OF ok1 f1] r1 False run show ?thesis by simp
  qed
qed

lemma ppl_input_unfold:
  "ppl_on_input (w\<lparr>p_value := s\<rparr>) =
     (if length (trim s) < 2
      then ppl_clearSuggestions
             (w\<lparr>p_value := s, p_timers := clear_if_set (p_timeout w) (p_timers w)\<rparr>)
      else w\<lparr>p_value := s,
             p_timers := snd (setTimeout (FetchCb (trim s))
                                (clear_if_set (p_timeout w) (p_timers w))),
             p_timeout := Some (fst (setTimeout (FetchCb (trim s))
                                (clear_if_set (p_timeout w) (p_timers w))))\<rparr>)"
  by (simp add: ppl_on_input_def Let_def split_beta)

lemma ppl_input_short:
  assumes "timers_ok (p_timeout w) (p_timers w)" and "length (trim s) < 2"
  shows "timers_ok (p_timeout (ppl_step pf w (Input s))) (p_timers (ppl_step pf w (Input s)))
       \<and> fetch_timers (p_timers (ppl_step pf w (Input s))) = []
       \<and> ppl_cleared (ppl_step pf w (Input s))
       \<and> p_requests (ppl_step pf w (Input s)) = p_requests w
       \<and> p_inflight (ppl_step pf w (Input s)) = p_inflight w
       \<and> p_session (ppl_step pf w (Input s)) = p_session w"
  using assms(2) timers_ok_cancelled [OF assms(1)] fetch_timers_cancelled [OF assms(1)]
  by (simp add: ppl_input_unfold ppl_clearSuggestions_def ppl_cleared_def)

lemma ppl_input_long:
  assumes "timers_ok (p_timeout w) (p_timers w)" and "\<not> length (trim s) < 2"
  shows "timers_ok (p_timeout (ppl_step pf w (Input s))) (p_timers (ppl_step pf w (Input s)))
       \<and> fetch_timers (p_timers (ppl_step pf w (Input s)))
           = [(the (p_timeout (ppl_step pf w (Input s))), FetchCb (trim s))]
       \<and> p_requests (ppl_step pf w (Input s)) = p_requests w
       \<and> p_inflight (ppl_step pf w (Input s)) = p_inflight w
       \<and> p_session (ppl_step pf w (Input s)) = p_session w"
proof -
  obtain h t' where st: "setTimeout (FetchCb (trim s))
      (clear_if_set (p_timeout w) (p_timers w)) = (h, t')"
    by (cases "setTimeout (FetchCb (trim s)) (clear_if_set (p_timeout w) (p_timers w))")
  from setTimeout_fetch [OF timers_ok_cancelled [OF assms(1)] fetch_timers_cancelled [OF assms(1)] st]
  have "timers_ok (Some h) t'" and "fetch_timers t' = [(h, FetchCb (trim s))]" by simp_all
  with assms(2) st show ?thesis by (simp add: ppl_input_unfold)
qed

lemma ppl_input_timers_ok:
  assumes "timers_ok (p_timeout w) (p_timers w)"
  shows "timers_ok (p_timeout (ppl_step pf w (Input s))) (p_timers (ppl_step pf w (Input s)))
       \<and> p_requests (ppl_step pf w (Input s)) = p_requests w
       \<and> p_session (ppl_step pf w (Input s)) = p_session w"
  using ppl_input_short [OF assms, where s = "s" and pf = pf]
    ppl_input_long [OF assms, where s = "s" and pf = pf]
  by blast

lemma ppl_net_timers:
  "p_timers (ppl_on_net pf k ev w) = p_timers w \<and> p_timeout (ppl_on_net pf k ev w) = p_timeout w"
  by (auto simp: ppl_on_net_def ppl_resume_def ppl_finish_def ppl_catch_def ppl_after_fetch_def
      ppl_after_json_def ppl_clearSuggestions_def ppl_renderSuggestions_def Let_def
      split: option.splits stage.splits net_event.splits prod.splits
        json_outcome.splits sum.splits)

lemma ppl_timer_timers:
  "p_timers (ppl_on_timer pf h w) = (if map_of (queue (p_timers w)) h = None then p_timers w
       else clearTimeout h (p_timers w))
   \<and> p_timeout (ppl_on_timer pf h w) = p_timeout w"
  by (auto simp: ppl_on_timer_def ppl_run_callback_def ppl_fetchSuggestions_call_def
      ppl_clearSuggestions_def split: option.splits callback.splits sum.splits)

lemma ppl_renderSelected_timers:
  "ppl_renderSelected pf w = Inr w' \<Longrightarrow> p_timers w' = p_timers w \<and> p_timeout w' = p_timeout w"
  by (auto simp: ppl_renderSelected_def split: if_splits sum.splits)

lemma ppl_mousedown_timers:
  "p_timers (state_of (ppl_on_mousedown pf target w)) = p_timers w
   \<and> p_timeout (state_of (ppl_on_mousedown pf target w)) = p_timeout w"
  by (auto simp: ppl_on_mousedown_def ppl_clearSuggestions_def Let_def
      dest: ppl_renderSelected_timers split: option.splits sum.splits)

lemma ppl_remove_timers:
  "p_timers (state_of (ppl_on_remove pf button w)) = p_timers w
   \<and> p_timeout (state_of (ppl_on_remove pf button w)) = p_timeout w"
  by (auto simp: ppl_on_remove_def Let_def
      dest: ppl_renderSelected_timers split: option.splits sum.splits)

lemma ppl_step_timers_ok:
  assumes "timers_ok (p_timeout w) (p_timers w)"
  shows "timers_ok (p_timeout (ppl_step pf w ev)) (p_timers (ppl_step pf w ev))"
proof (cases ev)
  case (Input s)
  then show ?thesis using ppl_input_timers_ok [OF assms] by simp
next
  case (TimerFires h)
  then show ?thesis using assms timers_ok_clearTimeout by (simp add: ppl_timer_timers)
next
  case (Net k e)
  then show ?thesis using assms by (simp add: ppl_net_timers)
next
  case (MouseDown target)
  then show ?thesis using assms by (simp add: ppl_mousedown_timers)
next
  case Blur
  then show ?thesis using setTimeout_clear [OF assms] by (simp add: ppl_on_blur_def)
next
  case Reset
  then show ?thesis using assms by (simp add: ppl_reset_returns)
next
  case (RemoveClick b)
  then show ?thesis using assms by (simp add: ppl_remove_timers)
next
  case LogoutCalled
  then show ?thesis using assms by simp
next
  case (ProfileUpdated payload)
  then show ?thesis using assms by simp
qed

lemma ppl_run_timers_ok:
  "timers_ok (p_timeout w) (p_timers w) \<Longrightarrow>
   timers_ok (p_timeout (ppl_run pf w evs)) (p_timers (ppl_run pf w evs))"
  unfolding ppl_run_def
  by (induction evs arbitrary: w) (simp_all add: ppl_step_timers_ok)

lemma ppl_reachable_timers_ok:
  "timers_ok (p_timeout (ppl_run pf (setupPeopleSelector g) evs))
     (p_timers (ppl_run pf (setupPeopleSelector g) evs))"
  by (rule ppl_run_timers_ok) (simp add: setupPeopleSelector_def timers_ok_def)

lemma ppl_burst:
  "timers_ok (p_timeout w) (p_timers w) \<Longrightarrow>
   timers_ok (p_timeout (ppl_run pf w (map Input texts)))
     (p_timers (ppl_run pf w (map Input texts)))
   \<and> p_requests (ppl_run pf w (map Input texts)) = p_requests w
   \<and> p_session (ppl_run pf w (map Input texts)) = p_session w"
  unfolding ppl_run_def
proof (induction texts arbitrary: w)
  case Nil
  then show ?case by simp
next
  case (Cons a texts)
  from ppl_input_timers_ok [OF Cons.prems, where s = a and pf = pf]
    Cons.IH [of "ppl_step pf w (Input a)"]
  show ?case by simp
qed

lemma ppl_run_snoc: "ppl_run pf w (evs @ [ev]) = ppl_step pf (ppl_run pf w evs) ev"
  by (simp add: ppl_run_def)

lemma ppl_elapses_none:
  "fetch_timers (p_timers w) = [] \<Longrightarrow> ppl_debounce_elapses pf w = w"
  by (simp add: ppl_debounce_elapses_def)

text \<open>The requests a call of \<open>fetchSuggestions\<close> adds to the log: one, or none when
  \<open>fetchWithAuth\<close> throws before it dispatches.\<close>

lemma ppl_elapses_one:
  assumes "timers_ok (p_timeout w) (p_timers w)"
    and "fetch_timers (p_timers w) = [(h, FetchCb q)]"
  shows "p_requests (ppl_debounce_elapses pf w)
           = p_requests w
             @ (case ppl_fetch_request pf (localStorage (p_session w)) q of
                  Inl e \<Rightarrow> [] | Inr req \<Rightarrow> [req])
       \<and> fetch_timers (p_timers (ppl_debounce_elapses pf w)) = []"
proof -
  have "(h, FetchCb q) \<in> set (fetch_timers (p_timers w))" using assms(2) by simp
  then have "(h, FetchCb q) \<in> set (queue (p_timers w))" by (simp add: fetch_timers_def)
  from map_of_queued [OF assms(1) this]
  have m: "map_of (queue (p_timers w)) h = Some (FetchCb q)" .
  have e: "ppl_debounce_elapses pf w = ppl_on_timer pf h w"
    using assms(2) by (simp add: ppl_debounce_elapses_def)
  have "fetch_timers (clearTimeout h (p_timers w)) = []"
    using assms(2) by (simp add: fetch_timers_clearTimeout)
  with m e show ?thesis
    by (simp add: ppl_on_timer_def ppl_run_callback_def ppl_fetchSuggestions_call_def
        ppl_clearSuggestions_def split: sum.splits)
qed

lemma ppl_coalesce:
  assumes "timers_ok (p_timeout w) (p_timers w)" and "texts \<noteq> []"
  shows "p_requests (ppl_run pf w (map Input texts)) = p_requests w
       \<and> p_requests (ppl_debounce_elapses pf (ppl_run pf w (map Input texts)))
           = p_requests w
             @ (if 2 \<le> length (trim (last texts))
                then (case ppl_fetch_request pf (localStorage (p_session w)) (trim (last texts)) of
                        Inl e \<Rightarrow> [] | Inr req \<Rightarrow> [req])
                else [])
       \<and> fetch_timers (p_timers (ppl_debounce_elapses pf (ppl_run pf w (map Input texts)))) = []"
proof -
  define w0 where "w0 = ppl_run pf w (map Input (butlast texts))"
  define w1 where "w1 = ppl_step pf w0 (Input (last texts))"
  from assms(2) have "texts = butlast texts @ [last texts]" by simp
  then have "map Input texts = map Input (butlast texts) @ [Input (last texts)]"
    by (metis list.simps(8,9) map_append)
  then have run: "ppl_run pf w (map Input texts) = w1"
    by (simp add: w1_def w0_def ppl_run_snoc)
  from ppl_burst [OF assms(1), where texts = "butlast texts" and pf = pf]
  have ok0: "timers_ok (p_timeout w0) (p_timers w0)" and r0: "p_requests w0 = p_requests w"
    and s0: "p_session w0 = p_session w"
    by (simp_all add: w0_def)
  show ?thesis
  proof (cases "length (trim (last texts)) < 2")
    case True
    from ppl_input_short [OF ok0 True, where pf = pf] r0
    have "fetch_timers (p_timers w1) = []" and "p_requests w1 = p_requests w"
      by (simp_all add: w1_def)
    with True run show ?thesis by (simp add: ppl_elapses_none)
  next
    case False
    from ppl_input_long [OF ok0 False, where pf = pf] r0 s0
    have ok1: "timers_ok (p_timeout w1) (p_timers w1)"
      and f1: "fetch_timers (p_timers w1) = [(the (p_timeout w1), FetchCb (trim (last texts)))]"
      and r1: "p_requests w1 = p_requests w"
      and s1: "p_session w1 = p_session w"
      by (simp_all add: w1_def)
    from ppl_elapses_one [OF ok1 f1, where pf = pf] r1 s1 False run show ?thesis by simp
  qed
qed

lemma ppl_request_built:
  assumes "getToken st = None
     \<or> (\<exists>t. getToken st = Some t \<and> header_value (normalize_value (''Bearer '' @ t)))"
  shows "\<exists>req. ppl_fetch_request pf st q = Inr req"
  unfolding ppl_fetch_request_def
  by (rule request_built [where ?headers0.0 = "[]"]) (use assms in \<open>simp_all add: new_Headers_def\<close>)

text \<open>
  Claim C5.  In every state of a widget whose timers are in order, an \<open>input\<close> event
  whose trimmed text has fewer than 2 characters leaves the suggestion list empty and
  hidden and no debounce timer pending, and dispatches nothing: the log of requests
  and the suspended fetches are as before.  Every state a widget reaches from its
  setup has its timers in order.  This holds for both widgets.
\<close>

theorem short_input_dispatches_nothing:
  "(timers_ok (l_timeout w) (l_timers w) \<and> length (trim s) < 2 \<longrightarrow>
      loc_cleared (loc_step pf w (Input s))
      \<and> fetch_timers (l_timers (loc_step pf w (Input s))) = []
      \<and> l_requests (loc_step pf w (Input s)) = l_requests w
      \<and> l_inflight (loc_step pf w (Input s)) = l_inflight w)
   \<and> timers_ok (l_timeout (loc_run pf (setupLocationAutocomplete v0) evs))
        (l_timers (loc_run pf (setupLocationAutocomplete v0) evs))
   \<and> (timers_ok (p_timeout pw) (p_timers pw) \<and> length (trim s) < 2 \<longrightarrow>
      ppl_cleared (ppl_step pf pw (Input s))
      \<and> fetch_timers (p_timers (ppl_step pf pw (Input s))) = []
      \<and> p_requests (ppl_step pf pw (Input s)) = p_requests pw
      \<and> p_inflight (ppl_step pf pw (Input s)) = p_inflight pw)
   \<and> timers_ok (p_timeout (ppl_run pf (setupPeopleSelector g) pevs))
        (p_timers (ppl_run pf (setupPeopleSelector g) pevs))"
  using loc_input_short [of w s pf] loc_reachable_timers_ok [of pf v0 evs]
    ppl_input_short [of pw s pf] ppl_reachable_timers_ok [of pf g pevs]
  by blast

theorem short_input_dispatches_nothing_witness:
  "length (trim '' P '') < 2
   \<and> \<not> loc_cleared (loc_run example_platform (setupLocationAutocomplete [])
           [Input ''Pa'', TimerFires 1, Net 0 (FetchSettled (FetchResolved 200)),
            Net 0 (JsonSettled (JsonResolved
              (JArr [JObj [(''place_id'', JNum 1), (''display_name'', JStr ''Paris'')]]))),
            Input ''Par''])
   \<and> fetch_timers (l_timers (loc_run example_platform (setupLocationAutocomplete [])
           [Input ''Pa'', TimerFires 1, Net 0 (FetchSettled (FetchResolved 200)),
            Net 0 (JsonSettled (JsonResolved
              (JArr [JObj [(''place_id'', JNum 1), (''display_name'', JStr ''Paris'')]]))),
            Input ''Par''])) \<noteq> []
   \<and> loc_cleared (loc_step example_platform (loc_run example_platform (setupLocationAutocomplete [])
           [Input ''Pa'', TimerFires 1, Net 0 (FetchSettled (FetchResolved 200)),
            Net 0 (JsonSettled (JsonResolved
              (JArr [JObj [(''place_id'', JNum 1), (''display_name'', JStr ''Paris'')]]))),
            Input ''Par'']) (Input '' P ''))
   \<and> fetch_timers (l_timers (loc_step example_platform (loc_run example_platform (setupLocationAutocomplete [])
           [Input ''Pa'', TimerFires 1, Net 0 (FetchSettled (FetchResolved 200)),
            Net 0 (JsonSettled (JsonResolved
              (JArr [JObj [(''place_id'', JNum 1), (''display_name'', JStr ''Paris'')]]))),
            Input ''Par'']) (Input '' P ''))) = []
   \<and> l_requests (loc_step example_platform (loc_run example_platform (setupLocationAutocomplete [])
           [Input ''Pa'', TimerFires 1, Net 0 (FetchSettled (FetchResolved 200)),
            Net 0 (JsonSettled (JsonResolved
              (JArr [JObj [(''place_id'', JNum 1), (''display_name'', JStr ''Paris'')]]))),
            Input ''Par'']) (Input '' P '')) = l_requests (loc_run example_platform (setupLocationAutocomplete [])
           [Input ''Pa'', TimerFires 1, Net 0 (FetchSettled (FetchResolved 200)),
            Net 0 (JsonSettled (JsonResolved
              (JArr [JObj [(''place_id'', JNum 1), (''display_name'', JStr ''Paris'')]]))),
            Input ''Par''])
   \<and> \<not> ppl_cleared (ppl_run example_platform (setupPeopleSelector \<lparr>localStorage = [], currentUser = JNull, location_href = []\<rparr>)
           [Input ''al'', TimerFires 1, Net 0 (FetchSettled (FetchResolved 200)),
            Net 0 (JsonSettled (JsonResolved
              (JArr [JObj [(''id'', JStr ''u2''), (''name'', JStr ''Alma'')]]))),
            Input ''alm''])
   \<and> fetch_timers (p_timers (ppl_run example_platform (setupPeopleSelector \<lparr>localStorage = [], currentUser = JNull, location_href = []\<rparr>)
           [Input ''al'', TimerFires 1, Net 0 (FetchSettled (FetchResolved 200)),
            Net 0 (JsonSettled (JsonResolved
              (JArr [JObj [(''id'', JStr ''u2''), (''name'', JStr ''Alma'')]]))),
            Input ''alm''])) \<noteq> []
   \<and> ppl_cleared (ppl_step example_platform (ppl_run example_platform (setupPeopleSelector \<lparr>localStorage = [], currentUser = JNull, location_href = []\<rparr>)
           [Input ''al'', TimerFires 1, Net 0 (FetchSettled (FetchResolved 200)),
            Net 0 (JsonSettled (JsonResolved
              (JArr [JObj [(''id'', JStr ''u2''), (''name'', JStr ''Alma'')]]))),
            Input ''alm'']) (Input '' P ''))
   \<and> fetch_timers (p_timers (ppl_step example_platform (ppl_run example_platform (setupPeopleSelector \<lparr>localStorage = [], currentUser = JNull, location_href = []\<rparr>)
           [Input ''al'', TimerFires 1, Net 0 (FetchSettled (FetchResolved 200)),
            Net 0 (JsonSettled (JsonResolved
              (JArr [JObj [(''id'', JStr ''u2''), (''name'', JStr ''Alma'')]]))),
            Input ''alm'']) (Input '' P ''))) = []
   \<and> p_requests (ppl_step example_platform (ppl_run example_platform (setupPeopleSelector \<lparr>localStorage = [], currentUser = JNull, location_href = []\<rparr>)
           [Input ''al'', TimerFires 1, Net 0 (FetchSettled (FetchResolved 200)),
            Net 0 (JsonSettled (JsonResolved
              (JArr [JObj [(''id'', JStr ''u2''), (''name'', JStr ''Alma'')]]))),
            Input ''alm'']) (Input '' P '')) = p_requests (ppl_run example_platform (setupPeopleSelector \<lparr>localStorage = [], currentUser = JNull, location_href = []\<rparr>)
           [Input ''al'', TimerFires 1, Net 0 (FetchSettled (FetchResolved 200)),
            Net 0 (JsonSettled (JsonResolved
              (JArr [JObj [(''id'', JStr ''u2''), (''name'', JStr ''Alma'')]]))),
            Input ''alm''])"
proof -
  have a: "length (trim '' P '') < 2" by code_simp
  have b: "\<not> loc_cleared (loc_run example_platform (setupLocationAutocomplete [])
           [Input ''Pa'', TimerFires 1, Net 0 (FetchSettled (FetchResolved 200)),
            Net 0 (JsonSettled (JsonResolved
              (JArr [JObj [(''place_id'', JNum 1), (''display_name'', JStr ''Paris'')]]))),
            Input ''Par''])" by code_simp
  have c: "fetch_timers (l_timers (loc_run example_platform (setupLocationAutocomplete [])
           [Input ''Pa'', TimerFires 1, Net 0 (FetchSettled (FetchResolved 200)),
            Net 0 (JsonSettled (JsonResolved
              (JArr [JObj [(''place_id'', JNum 1), (''display_name'', JStr ''Paris'')]]))),
            Input ''Par''])) \<noteq> []" by code_simp
  have d: "\<not> ppl_cleared (ppl_run example_platform (setupPeopleSelector \<lparr>localStorage = [], currentUser = JNull, location_href = []\<rparr>)
           [Input ''al'', TimerFires 1, Net 0 (FetchSettled (FetchResolved 200)),
            Net 0 (JsonSettled (JsonResolved
              (JArr [JObj [(''id'', JStr ''u2''), (''name'', JStr ''Alma'')]]))),
            Input ''alm''])" by code_simp
  have e: "fetch_timers (p_timers (ppl_run example_platform (setupPeopleSelector \<lparr>localStorage = [], currentUser = JNull, location_href = []\<rparr>)
           [Input ''al'', TimerFires 1, Net 0 (FetchSettled (FetchResolved 200)),
            Net 0 (JsonSettled (JsonResolved
              (JArr [JObj [(''id'', JStr ''u2''), (''name'', JStr ''Alma'')]]))),
            Input ''alm''])) \<noteq> []" by code_simp
  from a b c d e
    short_input_dispatches_nothing
      [where w = "(loc_run example_platform (setupLocationAutocomplete [])
           [Input ''Pa'', TimerFires 1, Net 0 (FetchSettled (FetchResolved 200)),
            Net 0 (JsonSettled (JsonResolved
              (JArr [JObj [(''place_id'', JNum 1), (''display_name'', JStr ''Paris'')]]))),
            Input ''Par''])" and s = "'' P ''" and pf = example_platform and ?v0.0 = "[]"
         and evs = "[Input ''Pa'', TimerFires 1, Net 0 (FetchSettled (FetchResolved 200)),
            Net 0 (JsonSettled (JsonResolved
              (JArr [JObj [(''place_id'', JNum 1), (''display_name'', JStr ''Paris'')]]))),
            Input ''Par'']" and pw = "(ppl_run example_platform (setupPeopleSelector \<lparr>localStorage = [], currentUser = JNull, location_href = []\<rparr>)
           [Input ''al'', TimerFires 1, Net 0 (FetchSettled (FetchResolved 200)),
            Net 0 (JsonSettled (JsonResolved
              (JArr [JObj [(''id'', JStr ''u2''), (''name'', JStr ''Alma'')]]))),
            Input ''alm''])" and g = "\<lparr>localStorage = [], currentUser = JNull, location_href = []\<rparr>" and pevs = "[Input ''al'', TimerFires 1, Net 0 (FetchSettled (FetchResolved 200)),
            Net 0 (JsonSettled (JsonResolved
              (JArr [JObj [(''id'', JStr ''u2''), (''name'', JStr ''Alma'')]]))),
            Input ''alm'']"]
  show ?thesis by blast
qed

text \<open>
  Claim C6, as stated, fails: \<open>Pa\<close> is typed and, before its timer fires, the last
  character is deleted, leaving \<open>P\<close>; once the debounce interval has elapsed no query
  at all has been dispatched, not exactly one.
\<close>

theorem debounce_short_final_counterexample:
  "fetch_timers (l_timers (loc_run example_platform (setupLocationAutocomplete [])
      [Input ''Pa'']))
     = [(1, FetchCb ''Pa'')]
   \<and> l_requests (loc_debounce_elapses
      (loc_run example_platform (setupLocationAutocomplete []) [Input ''Pa'', Input ''P''])) = []
   \<and> length (l_requests (loc_debounce_elapses
      (loc_run example_platform (setupLocationAutocomplete []) [Input ''Pa'', Input ''P''])))
     \<noteq> 1"
  by code_simp

text \<open>
  Claim C6, amended.  In every state a widget can reach, a non-empty sequence of
  \<open>input\<close> events with no timer firing in between dispatches nothing while it lasts,
  and once the debounce interval has elapsed at most one query has been dispatched:
  exactly one, carrying the trimmed text of the final event, when that text has at
  least 2 characters, and none when it is shorter.  In the people selector the one
  query is dispatched unless \<open>fetchWithAuth\<close> throws before dispatching, which it does
  not when no token is stored or the stored token makes a valid header value.  No
  debounce timer is pending afterwards.
\<close>

theorem debounce_coalesces:
  "texts \<noteq> [] \<longrightarrow>
     l_requests (loc_run pf (loc_run pf (setupLocationAutocomplete v0) evs) (map Input texts))
       = l_requests (loc_run pf (setupLocationAutocomplete v0) evs)
     \<and> l_requests (loc_debounce_elapses
          (loc_run pf (loc_run pf (setupLocationAutocomplete v0) evs) (map Input texts)))
       = l_requests (loc_run pf (setupLocationAutocomplete v0) evs)
         @ (if 2 \<le> length (trim (last texts))
            then [loc_fetch_request (trim (last texts))] else [])
     \<and> fetch_timers (l_timers (loc_debounce_elapses
          (loc_run pf (loc_run pf (setupLocationAutocomplete v0) evs) (map Input texts)))) = []
     \<and> p_requests (ppl_run pf (ppl_run pf (setupPeopleSelector g) pevs) (map Input texts))
       = p_requests (ppl_run pf (setupPeopleSelector g) pevs)
     \<and> p_requests (ppl_debounce_elapses pf
          (ppl_run pf (ppl_run pf (setupPeopleSelector g) pevs) (map Input texts)))
       = p_requests (ppl_run pf (setupPeopleSelector g) pevs)
         @ (if 2 \<le> length (trim (last texts))
            then (case ppl_fetch_request pf
                         (localStorage (p_session (ppl_run pf (setupPeopleSelector g) pevs)))
                         (trim (last texts)) of
                    Inl e \<Rightarrow> [] | Inr req \<Rightarrow> [req])
            else [])
     \<and> fetch_timers (p_timers (ppl_debounce_elapses pf
          (ppl_run pf (ppl_run pf (setupPeopleSelector g) pevs) (map Input texts)))) = []
     \<and> (getToken (localStorage (p_session (ppl_run pf (setupPeopleSelector g) pevs))) = None
          \<or> getToken (localStorage (p_session (ppl_run pf (setupPeopleSelector g) pevs)))
               = Some t
             \<and> header_value (normalize_value (''Bearer '' @ t)) \<longrightarrow>
        (\<exists>req. ppl_fetch_request pf
                 (localStorage (p_session (ppl_run pf (setupPeopleSelector g) pevs)))
                 (trim (last texts)) = Inr req))"
  using loc_coalesce [OF loc_reachable_timers_ok [of pf v0 evs], of texts pf]
    ppl_coalesce [OF ppl_reachable_timers_ok [of pf g pevs], of texts pf]
    ppl_request_built
      [of "localStorage (p_session (ppl_run pf (setupPeopleSelector g) pevs))" pf
          "trim (last texts)"]
  by blast

theorem debounce_coalesces_witness:
  "[''Par'', ''Paris ''] \<noteq> []
   \<and> l_requests (loc_debounce_elapses
        (loc_run example_platform (loc_run example_platform (setupLocationAutocomplete []) [Blur])
           (map Input [''Par'', ''Paris ''])))
     = [loc_fetch_request ''Paris'']
   \<and> p_requests (ppl_debounce_elapses example_platform
        (ppl_run example_platform (ppl_run example_platform (setupPeopleSelector \<lparr>localStorage = [(''photoshare_token'', ''tok'')], currentUser = JNull,
              location_href = []\<rparr>) [Blur])
           (map Input [''Par'', ''Paris ''])))
     = [\<lparr>req_url = ''https://host/api/users/search?q=Paris'',
         req_headers = [(''content-type'', ''application/json''),
                        (''authorization'', ''Bearer tok'')],
         req_body = Plain JUndefined, req_other = [(''method'', ''GET'')]\<rparr>]"
proof -
  have a: "trim (last [''Par'', ''Paris '']) = ''Paris''" by code_simp
  have b: "l_requests (loc_run example_platform (setupLocationAutocomplete []) [Blur]) = []"
    by code_simp
  have c: "p_requests (ppl_run example_platform (setupPeopleSelector \<lparr>localStorage = [(''photoshare_token'', ''tok'')], currentUser = JNull,
              location_href = []\<rparr>) [Blur]) = []"
    by code_simp
  have d: "localStorage (p_session (ppl_run example_platform (setupPeopleSelector \<lparr>localStorage = [(''photoshare_token'', ''tok'')], currentUser = JNull,
              location_href = []\<rparr>) [Blur]))
      = [(''photoshare_token'', ''tok'')]"
    by code_simp
  have e: "ppl_fetch_request example_platform [(''photoshare_token'', ''tok'')] ''Paris''
      = Inr \<lparr>req_url = ''https://host/api/users/search?q=Paris'',
         req_headers = [(''content-type'', ''application/json''),
                        (''authorization'', ''Bearer tok'')],
         req_body = Plain JUndefined, req_other = [(''method'', ''GET'')]\<rparr>"
    by code_simp
  from debounce_coalesces
    [where texts = "[''Par'', ''Paris '']" and pf = example_platform and ?v0.0 = "[]"
       and evs = "[Blur]" and g = "\<lparr>localStorage = [(''photoshare_token'', ''tok'')], currentUser = JNull,
              location_href = []\<rparr>" and pevs = "[Blur]"]
  show ?thesis unfolding a b c d e by simp
qed

section \<open>The selection of the people selector\<close>

































end
